theory Spec2Isabelle
  imports Complex_Main
begin

section \<open>Numbers and constants\<close>

text \<open>
  The simulation core of the water-transport demonstrator, embedded from
  \<^verbatim>\<open>src/App.tsx\<close> and from the topology-editor variant of the same component
  (\<^verbatim>\<open>src/unnamed/part_000\<close>).

  A JavaScript \<^verbatim>\<open>number\<close> is modelled as a \<^typ>\<open>real\<close>: the arithmetic of the model is
  exact, and rounding, infinities and NaN are outside it. Every call of
  \<^verbatim>\<open>Math.random()\<close> is an explicit argument holding the value drawn.

  One property turns on rounding: whether the model level cancels in the Smith
  law. For it the SMITH branch is embedded a second time, with every operation
  rounded to a double (section \<open>Double arithmetic\<close>).
\<close>

definition DT :: real where
  "DT = 1 / 10"

definition PIPE_DELAY_SECONDS :: real where
  "PIPE_DELAY_SECONDS = 5"

text \<open>\<^verbatim>\<open>Math.round(x)\<close> is \<open>\<lfloor>x + 1/2\<rfloor>\<close>, which is \<^const>\<open>round\<close>.\<close>

definition BUFFER_SIZE :: nat where
  "BUFFER_SIZE = nat (round (PIPE_DELAY_SECONDS / DT))"

definition HISTORY_SECONDS :: real where
  "HISTORY_SECONDS = 60"

definition MAX_HISTORY :: nat where
  "MAX_HISTORY = nat (round (HISTORY_SECONDS / DT))"

text \<open>
  The remainder operator \<^verbatim>\<open>a % b\<close> on numbers truncates the quotient towards zero
  (the result has the sign of the dividend). Both uses in the source have a
  positive divisor.
\<close>

definition js_trunc :: "real \<Rightarrow> int" where
  "js_trunc x = (if 0 \<le> x then \<lfloor>x\<rfloor> else \<lceil>x\<rceil>)"

definition js_rem :: "real \<Rightarrow> real \<Rightarrow> real" where
  "js_rem a b = a - b * of_int (js_trunc (a / b))"

text \<open>\<^verbatim>\<open>x || d\<close> on a number: \<open>d\<close> when \<open>x\<close> is falsy (zero), else \<open>x\<close>.\<close>

definition js_or :: "real \<Rightarrow> real \<Rightarrow> real" where
  "js_or x d = (if x = 0 then d else x)"

section \<open>Data model (types.ts)\<close>

datatype ControlAlgorithm = PID | SMITH | MPC

datatype ParadigmType = TRADITIONAL | IMPROVED | MODERN

text \<open>The display-only strings of a paradigm (name, description, costs) are left out.\<close>

record DesignParadigm =
  ptype :: ParadigmType
  tankArea :: real
  algorithm :: ControlAlgorithm

record FaultConfig =
  fault_active :: bool
  fault_value :: real

record FaultState =
  leakage :: FaultConfig
  pumpEfficiency :: FaultConfig
  sensorDrift :: FaultConfig

datatype DisturbanceType =
  CONSTANT | STEP | RAMP | SINE | SQUARE | TRIANGLE | SAWTOOTH | PULSE | NOISE
  | RANDOM_WALK | BURST

record DisturbanceConfig =
  dtype :: DisturbanceType
  base :: real
  amplitude :: real
  frequency :: real
  active :: bool

datatype ActionType = CHANGE_DISTURBANCE | CHANGE_SETPOINT

datatype PlanStatus = pending | plan_active | completed

text \<open>
  Every plan that \<^verbatim>\<open>addPlan\<close> builds carries a copy of the draft
  \<^verbatim>\<open>DisturbanceConfig\<close> as its payload, and \<^verbatim>\<open>executePlan\<close> casts the payload to that
  type, so the payload is a \<^typ>\<open>DisturbanceConfig\<close> here.
\<close>

record PlanStep =
  plan_id :: string
  triggerTime :: real
  actionType :: ActionType
  payload :: DisturbanceConfig
  status :: PlanStatus

record ChartData =
  ch_t :: real
  ch_level :: real
  ch_target :: real
  ch_flowIn :: real
  ch_flowOut :: real

section \<open>Disturbance generator\<close>

text \<open>
  \<^verbatim>\<open>getDisturbanceValue(t, config)\<close>; the first argument is the value of
  \<^verbatim>\<open>Math.random()\<close> for the two waveforms that draw one.
\<close>

definition getDisturbanceValue :: "real \<Rightarrow> real \<Rightarrow> DisturbanceConfig \<Rightarrow> real" where
  "getDisturbanceValue r t config =
    (let omega = 2 * pi * frequency config;
         period = 1 / max (1 / 1000) (frequency config);
         localT = js_rem t period
     in case dtype config of
          CONSTANT \<Rightarrow> base config
        | STEP \<Rightarrow> if localT < period / 2 then base config else base config + amplitude config
        | RAMP \<Rightarrow> base config + amplitude config * (localT / period)
        | SINE \<Rightarrow> base config + amplitude config * sin (omega * t)
        | SQUARE \<Rightarrow> base config + amplitude config * sgn (sin (omega * t))
        | TRIANGLE \<Rightarrow> base config + amplitude config * (2 * \<bar>2 * (localT / period) - 1\<bar> - 1)
        | SAWTOOTH \<Rightarrow> base config + amplitude config * (2 * (localT / period) - 1)
        | PULSE \<Rightarrow> if localT < period * (1 / 10) then base config + amplitude config
                   else base config
        | NOISE \<Rightarrow> base config + (r - 1 / 2) * amplitude config
        | RANDOM_WALK \<Rightarrow> base config + sin (t * (1 / 10)) * amplitude config + (r - 1 / 2) * 5
        | BURST \<Rightarrow> if js_rem t 20 > 18 then base config + amplitude config * 2 else base config)"

section \<open>Application state (src/App.tsx)\<close>

datatype Scope = DEMAND | TARGET

text \<open>The values held by \<^verbatim>\<open>useState\<close>: what a render of the component sees.\<close>

record AppState =
  deployedParadigm :: DesignParadigm
  time :: real
  isRunning :: bool
  history :: "ChartData list"
  activeDemandPattern :: DisturbanceConfig
  activeSetpointPattern :: DisturbanceConfig
  disturbanceScope :: Scope
  draftDisturbance :: DisturbanceConfig
  plans :: "PlanStep list"
  planDelay :: real
  faults :: FaultState

record SmithState =
  modelLevel :: real
  delayedLevel :: real

record MpcState =
  lastOut :: real

text \<open>The values held by \<^verbatim>\<open>useRef\<close>: mutated in place by the simulation.\<close>

record Refs =
  pipeBufferRef :: "real list"
  tankLevelRef :: real
  smithStateRef :: SmithState
  integralRef :: real
  lastErrorRef :: real
  mpcStateRef :: MpcState

definition PARADIGMS :: "DesignParadigm list" where
  "PARADIGMS =
    [\<lparr>ptype = TRADITIONAL, tankArea = 200, algorithm = PID\<rparr>,
     \<lparr>ptype = IMPROVED, tankArea = 80, algorithm = SMITH\<rparr>,
     \<lparr>ptype = MODERN, tankArea = 15, algorithm = MPC\<rparr>]"

text \<open>The three entries of \<^const>\<open>PARADIGMS\<close>.\<close>

definition traditional :: DesignParadigm where
  "traditional = \<lparr>ptype = TRADITIONAL, tankArea = 200, algorithm = PID\<rparr>"

definition improved :: DesignParadigm where
  "improved = \<lparr>ptype = IMPROVED, tankArea = 80, algorithm = SMITH\<rparr>"

definition modern :: DesignParadigm where
  "modern = \<lparr>ptype = MODERN, tankArea = 15, algorithm = MPC\<rparr>"

definition initialState :: AppState where
  "initialState =
    \<lparr>deployedParadigm = \<lparr>ptype = IMPROVED, tankArea = 80, algorithm = SMITH\<rparr>,
     time = 0,
     isRunning = True,
     history = [],
     activeDemandPattern =
       \<lparr>dtype = STEP, base = 50, amplitude = 100, frequency = 1 / 10, active = True\<rparr>,
     activeSetpointPattern =
       \<lparr>dtype = CONSTANT, base = 295, amplitude = 0, frequency = 0, active = True\<rparr>,
     disturbanceScope = DEMAND,
     draftDisturbance =
       \<lparr>dtype = STEP, base = 50, amplitude = 100, frequency = 1 / 10, active = True\<rparr>,
     plans = [],
     planDelay = 10,
     faults =
       \<lparr>leakage = \<lparr>fault_active = False, fault_value = 0\<rparr>,
        pumpEfficiency = \<lparr>fault_active = False, fault_value = 0\<rparr>,
        sensorDrift = \<lparr>fault_active = False, fault_value = 0\<rparr>\<rparr>\<rparr>"

definition initialRefs :: Refs where
  "initialRefs =
    \<lparr>pipeBufferRef = replicate BUFFER_SIZE 0,
     tankLevelRef = 295,
     smithStateRef = \<lparr>modelLevel = 295, delayedLevel = 295\<rparr>,
     integralRef = 0,
     lastErrorRef = 0,
     mpcStateRef = \<lparr>lastOut = 0\<rparr>\<rparr>"

section \<open>Plan scheduler and configuration handlers\<close>

text \<open>
  A state setter called inside a callback does not change the value the running
  callback has captured: the new value is what the next render, and the interval
  callback created from it, sees. So \<^verbatim>\<open>executePlan\<close> works on the pair of patterns
  that the queued setter calls will leave, not on the patterns the running tick
  reads. The chat message it also sends is outside the simulation.
\<close>

definition executePlan ::
  "PlanStep \<Rightarrow> DisturbanceConfig \<times> DisturbanceConfig \<Rightarrow> DisturbanceConfig \<times> DisturbanceConfig"
where
  "executePlan plan queued =
    (if actionType plan = CHANGE_DISTURBANCE then (payload plan, snd queued)
     else (fst queued, payload plan))"

text \<open>
  \<^verbatim>\<open>plans.forEach\<close> of the tick: a pending plan that is due is marked completed in
  place and executed. The result is the plan list after the loop and the patterns
  left by the setter calls.
\<close>

fun checkPlans ::
  "real \<Rightarrow> PlanStep list \<Rightarrow> DisturbanceConfig \<times> DisturbanceConfig
    \<Rightarrow> PlanStep list \<times> (DisturbanceConfig \<times> DisturbanceConfig)"
where
  "checkPlans nextT [] queued = ([], queued)"
| "checkPlans nextT (plan # rest) queued =
    (if status plan = pending \<and> nextT \<ge> triggerTime plan
     then (let r = checkPlans nextT rest (executePlan plan queued)
           in (plan\<lparr>status := completed\<rparr> # fst r, snd r))
     else (let r = checkPlans nextT rest queued
           in (plan # fst r, snd r)))"

text \<open>
  \<^verbatim>\<open>addPlan\<close>; the argument is the identifier taken from the clock. The sort by
  trigger time is stable, as \<^const>\<open>sort_key\<close> is.
\<close>

definition addPlan :: "string \<Rightarrow> AppState \<Rightarrow> AppState" where
  "addPlan new_id st =
    (let newPlan =
       \<lparr>plan_id = new_id,
        triggerTime = time st + planDelay st,
        actionType = (if disturbanceScope st = DEMAND then CHANGE_DISTURBANCE
                      else CHANGE_SETPOINT),
        payload = draftDisturbance st,
        status = pending\<rparr>
     in st\<lparr>plans := sort_key triggerTime (plans st @ [newPlan])\<rparr>)"

definition executeImmediate :: "AppState \<Rightarrow> AppState" where
  "executeImmediate st =
    (if disturbanceScope st = DEMAND then st\<lparr>activeDemandPattern := draftDisturbance st\<rparr>
     else st\<lparr>activeSetpointPattern := draftDisturbance st\<rparr>)"

definition deployParadigm :: "DesignParadigm \<Rightarrow> AppState \<times> Refs \<Rightarrow> AppState \<times> Refs" where
  "deployParadigm p sr =
    (fst sr\<lparr>deployedParadigm := p\<rparr>,
     snd sr\<lparr>integralRef := 0, lastErrorRef := 0\<rparr>)"

text \<open>The handler of the reset button.\<close>

definition reset :: "AppState \<times> Refs \<Rightarrow> AppState \<times> Refs" where
  "reset sr =
    (fst sr\<lparr>time := 0, history := []\<rparr>,
     snd sr\<lparr>tankLevelRef := 295,
            pipeBufferRef := map (\<lambda>_. 0) (pipeBufferRef (snd sr))\<rparr>)"

section \<open>Physics\<close>

text \<open>
  \<^verbatim>\<open>updatePhysics(pumpInflow, demandOutflow)\<close>: the head of the pipe buffer is taken
  out (\<^verbatim>\<open>buffer.shift() || 0\<close>, zero for an empty buffer), the pump output is pushed
  at the tail, and the tank level is integrated and clamped at zero.
\<close>

definition updatePhysics :: "AppState \<Rightarrow> real \<Rightarrow> real \<Rightarrow> Refs \<Rightarrow> real \<times> Refs" where
  "updatePhysics st pumpInflow demandOutflow refs =
    (let buffer = pipeBufferRef refs;
         tankInflow = (case buffer of [] \<Rightarrow> 0 | x # _ \<Rightarrow> js_or x 0);
         buffer' = tl buffer @ [pumpInflow];
         area = tankArea (deployedParadigm st);
         netFlow = tankInflow - demandOutflow;
         netFlow' =
           (if fault_active (leakage (faults st))
            then netFlow - (fault_value (leakage (faults st)) / 10)
                             * sqrt (max 0 (tankLevelRef refs))
            else netFlow);
         dLevel = (netFlow' * DT) / area
     in (tankInflow,
         refs\<lparr>pipeBufferRef := buffer',
              tankLevelRef := max 0 (tankLevelRef refs + dLevel)\<rparr>))"

section \<open>Controller bank\<close>

text \<open>
  The three branches of \<^verbatim>\<open>runControl\<close>, each giving the output before the pump
  limit and the references it has updated, in exact arithmetic. The SMITH branch
  is given in double arithmetic as well (\<open>control_SMITH_double\<close> below): whether
  its model level cancels is decided there.
\<close>

definition control_PID :: "AppState \<Rightarrow> real \<Rightarrow> Refs \<Rightarrow> real \<times> Refs" where
  "control_PID st error refs =
    (let integral = integralRef refs + error * DT;
         integral' = (if \<bar>integral\<bar> > 500 then sgn integral * 500 else integral);
         derivative = (error - lastErrorRef refs) / DT;
         Kp = (if tankArea (deployedParadigm st) > 100 then 5 else 2);
         Ki = 1 / 2;
         Kd = 1 / 10;
         output = Kp * error + Ki * integral' + Kd * derivative
     in (output + 50, refs\<lparr>integralRef := integral'\<rparr>))"

definition control_SMITH :: "AppState \<Rightarrow> real \<Rightarrow> real \<Rightarrow> real \<Rightarrow> Refs \<Rightarrow> real \<times> Refs" where
  "control_SMITH st target level demand refs =
    (let modelArea = tankArea (deployedParadigm st);
         dModel = ((lastOut (mpcStateRef refs) - demand) * DT) / modelArea;
         smith = (smithStateRef refs)\<lparr>modelLevel := modelLevel (smithStateRef refs) + dModel\<rparr>;
         predError = target - modelLevel smith;
         mismatch = level - modelLevel smith;
         Kp = 4
     in (Kp * (predError - mismatch) + 50, refs\<lparr>smithStateRef := smith\<rparr>))"

text \<open>
  The lookahead of the MPC branch. \<open>ctime\<close> is the value of \<^verbatim>\<open>time\<close> that the
  closure of \<^verbatim>\<open>runControl\<close> has captured, \<open>rs i\<close> the random draw of the demand
  forecast in round \<open>i\<close>. Beyond the buffer the loop reads \<^verbatim>\<open>output\<close>, which is
  still 0 there.
\<close>

definition mpc_lookahead ::
  "AppState \<Rightarrow> real \<Rightarrow> (nat \<Rightarrow> real) \<Rightarrow> real list \<Rightarrow> real \<Rightarrow> real"
where
  "mpc_lookahead st ctime rs buffer level =
    foldl (\<lambda>predictedLevel i.
        let futureIn = (if i < length buffer then buffer ! i else 0);
            futureT = ctime + real i * DT;
            futureDemand = getDisturbanceValue (rs i) futureT (activeDemandPattern st)
        in predictedLevel + ((futureIn - futureDemand) * DT) / tankArea (deployedParadigm st))
      level [0..<50]"

definition control_MPC ::
  "AppState \<Rightarrow> real \<Rightarrow> (nat \<Rightarrow> real) \<Rightarrow> real \<Rightarrow> real \<Rightarrow> Refs \<Rightarrow> real \<times> Refs"
where
  "control_MPC st ctime rs target level refs =
    (let predictedLevel = mpc_lookahead st ctime rs (pipeBufferRef refs) level;
         futureError = target - predictedLevel
     in (lastOut (mpcStateRef refs) + futureError * 2, refs))"

definition maxFlow :: "AppState \<Rightarrow> real" where
  "maxFlow st =
    (if fault_active (pumpEfficiency (faults st))
     then 250 * (1 - fault_value (pumpEfficiency (faults st)) / 100)
     else 250)"

definition runControl ::
  "AppState \<Rightarrow> real \<Rightarrow> (nat \<Rightarrow> real) \<Rightarrow> real \<Rightarrow> real \<Rightarrow> real \<Rightarrow> Refs \<Rightarrow> real \<times> Refs"
where
  "runControl st ctime rs target level demand refs =
    (let error = target - level;
         r = (case algorithm (deployedParadigm st) of
                PID \<Rightarrow> control_PID st error refs
              | SMITH \<Rightarrow> control_SMITH st target level demand refs
              | MPC \<Rightarrow> control_MPC st ctime rs target level refs);
         refs' = (snd r)\<lparr>lastErrorRef := error\<rparr>;
         output = max 0 (min (maxFlow st) (fst r))
     in (output, refs'\<lparr>mpcStateRef := \<lparr>lastOut = output\<rparr>\<rparr>))"

section \<open>One tick of the main loop\<close>

text \<open>The random draws of one tick, in the order the tick makes them.\<close>

record Rnd =
  rDemand :: real
  rTarget :: real
  rSensor :: real
  rForecast :: "nat \<Rightarrow> real"

text \<open>The draws that leave every noise term at zero.\<close>

definition rnd0 :: Rnd where
  "rnd0 = \<lparr>rDemand = 1 / 2, rTarget = 1 / 2, rSensor = 1 / 2, rForecast = (\<lambda>_. 1 / 2)\<rparr>"

definition appendHistory :: "ChartData \<Rightarrow> ChartData list \<Rightarrow> ChartData list" where
  "appendHistory d prev =
    (let newData = prev @ [d]
     in if real (length newData) > real MAX_HISTORY * (3 / 2)
        then drop (length newData - MAX_HISTORY) newData
        else newData)"

text \<open>
  The callback of \<^verbatim>\<open>setInterval\<close>. It reads the patterns, faults, paradigm and plans
  of the render that created it (\<open>st\<close>); the setter calls of \<^verbatim>\<open>executePlan\<close> are
  applied to the state the tick returns.
\<close>

definition tick :: "real \<Rightarrow> Rnd \<Rightarrow> AppState \<times> Refs \<Rightarrow> AppState \<times> Refs" where
  "tick ctime rnd sr =
    (let st = fst sr;
         refs = snd sr;
         nextT = time st + DT;
         fired = checkPlans nextT (plans st) (activeDemandPattern st, activeSetpointPattern st);
         currentDemand = getDisturbanceValue (rDemand rnd) nextT (activeDemandPattern st);
         currentTarget = getDisturbanceValue (rTarget rnd) nextT (activeSetpointPattern st);
         sensed = (if fault_active (sensorDrift (faults st))
                   then tankLevelRef refs + fault_value (sensorDrift (faults st))
                   else tankLevelRef refs);
         sensedLevel = sensed + (rSensor rnd - 1 / 2) * (1 / 10);
         c = runControl st ctime (rForecast rnd) currentTarget sensedLevel currentDemand refs;
         pumpOutput = fst c;
         refs' = snd (updatePhysics st pumpOutput currentDemand (snd c));
         sample = \<lparr>ch_t = nextT, ch_level = tankLevelRef refs', ch_target = currentTarget,
                   ch_flowIn = pumpOutput, ch_flowOut = currentDemand\<rparr>
     in (st\<lparr>time := nextT,
            plans := fst fired,
            activeDemandPattern := fst (snd fired),
            activeSetpointPattern := snd (snd fired),
            history := appendHistory sample (history st)\<rparr>,
         refs'))"

section \<open>Sequences of updates\<close>

text \<open>
  The events that change the simulation: a tick of the interval (only while the
  loop is running) and the handlers of the configuration boundary. Selecting a
  scope copies the active pattern of that scope into the draft when the scope
  changes (the effect depends on \<^verbatim>\<open>disturbanceScope\<close>); selecting the scope that is
  already selected changes nothing.
\<close>

datatype Event =
  Tick real Rnd
  | Deploy DesignParadigm
  | Reset
  | ToggleRunning
  | SetFaults FaultState
  | SetScope Scope
  | SetDraft DisturbanceConfig
  | SetPlanDelay real
  | AddPlan string
  | ExecuteImmediate

fun apply_event :: "Event \<Rightarrow> AppState \<times> Refs \<Rightarrow> AppState \<times> Refs" where
  "apply_event (Tick ctime rnd) sr = (if isRunning (fst sr) then tick ctime rnd sr else sr)"
| "apply_event (Deploy p) sr = deployParadigm p sr"
| "apply_event Reset sr = reset sr"
| "apply_event ToggleRunning sr = (fst sr\<lparr>isRunning := \<not> isRunning (fst sr)\<rparr>, snd sr)"
| "apply_event (SetFaults f) sr = (fst sr\<lparr>faults := f\<rparr>, snd sr)"
| "apply_event (SetScope sc) sr =
    (if sc = disturbanceScope (fst sr) then sr
     else (fst sr\<lparr>disturbanceScope := sc,
                  draftDisturbance := (if sc = DEMAND then activeDemandPattern (fst sr)
                                       else activeSetpointPattern (fst sr))\<rparr>,
           snd sr))"
| "apply_event (SetDraft d) sr = (fst sr\<lparr>draftDisturbance := d\<rparr>, snd sr)"
| "apply_event (SetPlanDelay d) sr = (fst sr\<lparr>planDelay := d\<rparr>, snd sr)"
| "apply_event (AddPlan new_id) sr = (addPlan new_id (fst sr), snd sr)"
| "apply_event ExecuteImmediate sr = (executeImmediate (fst sr), snd sr)"

definition simulate :: "Event list \<Rightarrow> AppState \<times> Refs \<Rightarrow> AppState \<times> Refs" where
  "simulate evs sr = foldl (\<lambda>s e. apply_event e s) sr evs"

text \<open>
  The physics update alone, over a sequence of ticks: each entry gives the
  configuration of that tick, the pump output pushed and the demand.
\<close>

fun physics_run :: "(AppState \<times> real \<times> real) list \<Rightarrow> Refs \<Rightarrow> Refs" where
  "physics_run [] refs = refs"
| "physics_run ((st, pumpInflow, demandOutflow) # rest) refs =
    physics_run rest (snd (updatePhysics st pumpInflow demandOutflow refs))"

text \<open>
  The controller driven with the same target, level and demand for \<open>n\<close> ticks in
  a row, which holds the error constant.
\<close>

fun control_run ::
  "nat \<Rightarrow> AppState \<Rightarrow> real \<Rightarrow> (nat \<Rightarrow> real) \<Rightarrow> real \<Rightarrow> real \<Rightarrow> real \<Rightarrow> Refs \<Rightarrow> Refs"
where
  "control_run 0 st ctime rs target level demand refs = refs"
| "control_run (Suc n) st ctime rs target level demand refs =
    control_run n st ctime rs target level demand
      (snd (runControl st ctime rs target level demand refs))"

section \<open>The topology-editor variant (src/unnamed/part_000)\<close>

text \<open>
  The second version of the component keeps the same state and references (it has
  no Smith state) and adds a canvas of nodes, whose data carry the tank area, the
  pipe delay and the pump efficiency. Position and label of a node are left out;
  a data field a node does not have is \<open>None\<close>.
\<close>

definition BUFFER_SIZE_topo :: nat where
  "BUFFER_SIZE_topo = 500"

datatype NodeType =
  N_SOURCE | N_PUMP | N_PIPE | N_RESERVOIR | N_DEMAND | N_VALVE | N_GATE | N_TURBINE

record NodeData =
  area :: "real option"
  delay :: "real option"
  efficiency :: "real option"

record CanvasNode =
  node_id :: string
  ntype :: NodeType
  ndata :: NodeData

definition initialNodes :: "CanvasNode list" where
  "initialNodes =
    [\<lparr>node_id = ''n1'', ntype = N_SOURCE,
      ndata = \<lparr>area = None, delay = None, efficiency = None\<rparr>\<rparr>,
     \<lparr>node_id = ''n2'', ntype = N_PUMP,
      ndata = \<lparr>area = None, delay = None, efficiency = Some 100\<rparr>\<rparr>,
     \<lparr>node_id = ''n3'', ntype = N_PIPE,
      ndata = \<lparr>area = None, delay = Some 5, efficiency = None\<rparr>\<rparr>,
     \<lparr>node_id = ''n4'', ntype = N_RESERVOIR,
      ndata = \<lparr>area = Some 80, delay = None, efficiency = None\<rparr>\<rparr>,
     \<lparr>node_id = ''n5'', ntype = N_DEMAND,
      ndata = \<lparr>area = None, delay = None, efficiency = None\<rparr>\<rparr>]"

definition initialRefs_topo :: Refs where
  "initialRefs_topo = initialRefs\<lparr>pipeBufferRef := replicate BUFFER_SIZE_topo 0\<rparr>"

text \<open>\<^verbatim>\<open>node?.data.field || d\<close>: \<open>d\<close> when the node or the field is missing or zero.\<close>

definition node_field ::
  "NodeType \<Rightarrow> (NodeData \<Rightarrow> real option) \<Rightarrow> real \<Rightarrow> CanvasNode list \<Rightarrow> real"
where
  "node_field ty field d nodes =
    (case find (\<lambda>n. ntype n = ty) nodes of
       None \<Rightarrow> d
     | Some n \<Rightarrow> (case field (ndata n) of None \<Rightarrow> d | Some v \<Rightarrow> js_or v d))"

definition getDisturbanceValue_topo :: "real \<Rightarrow> real \<Rightarrow> DisturbanceConfig \<Rightarrow> real" where
  "getDisturbanceValue_topo r t config =
    (let omega = 2 * pi * frequency config;
         period = 1 / max (1 / 1000) (frequency config);
         localT = js_rem t period
     in case dtype config of
          CONSTANT \<Rightarrow> base config
        | STEP \<Rightarrow> if localT < period / 2 then base config else base config + amplitude config
        | RAMP \<Rightarrow> base config + amplitude config * (localT / period)
        | SINE \<Rightarrow> base config + amplitude config * sin (omega * t)
        | SQUARE \<Rightarrow> base config + amplitude config * sgn (sin (omega * t))
        | PULSE \<Rightarrow> if localT < period * (1 / 10) then base config + amplitude config
                   else base config
        | NOISE \<Rightarrow> base config + (r - 1 / 2) * amplitude config
        | BURST \<Rightarrow> if js_rem t 20 > 18 then base config + amplitude config * 2 else base config
        | _ \<Rightarrow> base config)"

text \<open>
  The control computation of the tick, before the pump limit. The connectivity
  flag of the source is \<^verbatim>\<open>edges.some(...) || true\<close>, which is always true.
\<close>

definition control_topo :: "AppState \<Rightarrow> real \<Rightarrow> real \<Rightarrow> Refs \<Rightarrow> real \<times> Refs" where
  "control_topo st tank_area error refs =
    (case algorithm (deployedParadigm st) of
       PID \<Rightarrow>
         (let integral = integralRef refs + error * DT;
              integral' = (if \<bar>integral\<bar> > 500 then sgn integral * 500 else integral)
          in ((if tank_area > 100 then 5 else 2) * error + (1 / 2) * integral'
                + (1 / 10) * (error - lastErrorRef refs) / DT + 50,
              refs\<lparr>integralRef := integral'\<rparr>))
     | MPC \<Rightarrow> (lastOut (mpcStateRef refs) + error * (5 / 2), refs)
     | SMITH \<Rightarrow> (4 * error + 50, refs))"

text \<open>
  The buffer block of the tick: push the output, drop the head beyond the
  capacity, and read \<^verbatim>\<open>buf[buf.length - idx]\<close> when the buffer is at least \<open>idx\<close>
  long. The read is \<^verbatim>\<open>undefined\<close> for \<open>idx \<le> 0\<close>, where the index is not below the
  length: that is \<open>None\<close>.
\<close>

definition buffer_topo :: "real \<Rightarrow> real \<Rightarrow> real list \<Rightarrow> real option \<times> real list" where
  "buffer_topo pipe_delay out buffer =
    (let buf = buffer @ [out];
         buf' = (if length buf > BUFFER_SIZE_topo then tl buf else buf);
         idx = \<lfloor>pipe_delay / DT\<rfloor>;
         inflow = (if int (length buf') \<ge> idx
                   then (if idx \<le> 0 then None else Some (buf' ! nat (int (length buf') - idx)))
                   else Some 0)
     in (inflow, buf'))"

definition appendHistory_topo :: "ChartData \<Rightarrow> ChartData list \<Rightarrow> ChartData list" where
  "appendHistory_topo d prev =
    (let next = prev @ [d]
     in if length next > MAX_HISTORY then drop (length next - MAX_HISTORY) next else next)"

text \<open>
  The callback of \<^verbatim>\<open>setInterval\<close> in the variant. An undefined inflow would make
  the net flow and the level NaN; the tick is \<open>None\<close> then.
\<close>

definition tick_topo ::
  "CanvasNode list \<Rightarrow> Rnd \<Rightarrow> AppState \<times> Refs \<Rightarrow> (AppState \<times> Refs) option"
where
  "tick_topo nodes rnd sr =
    (let st = fst sr;
         refs = snd sr;
         nextT = time st + DT;
         fired = checkPlans nextT (plans st) (activeDemandPattern st, activeSetpointPattern st);
         tank_area = node_field N_RESERVOIR area (tankArea (deployedParadigm st)) nodes;
         pipe_delay = node_field N_PIPE delay 5 nodes;
         eff = node_field N_PUMP efficiency 100 nodes;
         demand = getDisturbanceValue_topo (rDemand rnd) nextT (activeDemandPattern st);
         target = getDisturbanceValue_topo (rTarget rnd) nextT (activeSetpointPattern st);
         error = target - tankLevelRef refs;
         c = control_topo st tank_area error refs;
         refs1 = (snd c)\<lparr>lastErrorRef := error\<rparr>;
         maxQ = 250 * (eff / 100);
         maxQ' = (if fault_active (pumpEfficiency (faults st))
                  then maxQ * (1 - fault_value (pumpEfficiency (faults st)) / 100)
                  else maxQ);
         out = max 0 (min maxQ' (fst c));
         refs2 = refs1\<lparr>mpcStateRef := \<lparr>lastOut = out\<rparr>\<rparr>;
         b = buffer_topo pipe_delay out (pipeBufferRef refs2)
     in case fst b of
          None \<Rightarrow> None
        | Some inflow \<Rightarrow>
            (let net = inflow - demand;
                 net' = (if fault_active (leakage (faults st))
                         then net - (fault_value (leakage (faults st)) / 10)
                                      * sqrt (max 0 (tankLevelRef refs2))
                         else net);
                 refs3 = refs2\<lparr>pipeBufferRef := snd b,
                                tankLevelRef := max 0 (tankLevelRef refs2 + (net' * DT) / tank_area)\<rparr>;
                 sample = \<lparr>ch_t = nextT, ch_level = tankLevelRef refs3, ch_target = target,
                           ch_flowIn = out, ch_flowOut = demand\<rparr>
             in Some (st\<lparr>time := nextT,
                         plans := fst fired,
                         activeDemandPattern := fst (snd fired),
                         activeSetpointPattern := snd (snd fired),
                         history := appendHistory_topo sample (history st)\<rparr>,
                      refs3)))"

text \<open>The buffer block alone over a sequence of outputs pushed, from the first on.\<close>

fun buffer_run_topo :: "real \<Rightarrow> real list \<Rightarrow> real list \<Rightarrow> real list" where
  "buffer_run_topo pipe_delay [] buffer = buffer"
| "buffer_run_topo pipe_delay (out # outs) buffer =
    buffer_run_topo pipe_delay outs (snd (buffer_topo pipe_delay out buffer))"

section \<open>Double arithmetic\<close>

text \<open>
  The integer nearest to a real, the even one of two that are equally near.
\<close>

definition round_half_even :: "real \<Rightarrow> int" where
  "round_half_even r =
    (let f = \<lfloor>r\<rfloor>; d = r - of_int f
     in if d < 1 / 2 then f else if 1 / 2 < d then f + 1 else if even f then f else f + 1)"

text \<open>
  The spacing of the doubles around \<open>x\<close>: \<open>2 ^ (e - 52)\<close> for \<open>2 ^ e \<le> \<bar>x\<bar> < 2 ^ (e + 1)\<close> (53
  significant bits), and \<open>2 ^ (- 1074)\<close> below the smallest normal number \<open>2 ^ (- 1022)\<close>.
\<close>

definition double_quantum :: "real \<Rightarrow> real" where
  "double_quantum x =
    (if \<bar>x\<bar> < 2 powr (- 1022) then 2 powr (- 1074)
     else 2 powr (of_int \<lfloor>log 2 \<bar>x\<bar>\<rfloor> - 52))"

text \<open>
  Rounding to the nearest double, ties to even. A result of \<open>2 ^ 1024\<close> or more
  would be an infinity in the program; that and NaN stay outside the model.
\<close>

definition to_double :: "real \<Rightarrow> real" where
  "to_double x = of_int (round_half_even (x / double_quantum x)) * double_quantum x"

text \<open>
  The four operations on numbers: the exact result, rounded once.
\<close>

definition dadd :: "real \<Rightarrow> real \<Rightarrow> real" where
  "dadd x y = to_double (x + y)"

definition dsub :: "real \<Rightarrow> real \<Rightarrow> real" where
  "dsub x y = to_double (x - y)"

definition dmul :: "real \<Rightarrow> real \<Rightarrow> real" where
  "dmul x y = to_double (x * y)"

definition ddiv :: "real \<Rightarrow> real \<Rightarrow> real" where
  "ddiv x y = to_double (x / y)"

text \<open>The constant \<^verbatim>\<open>DT = 0.1\<close> is the double nearest to one tenth.\<close>

definition DT_double :: real where
  "DT_double = to_double (1 / 10)"

text \<open>
  The SMITH branch of \<^verbatim>\<open>runControl\<close> (the same lines as \<^const>\<open>control_SMITH\<close>) with
  every operation in double arithmetic.
\<close>

definition control_SMITH_double ::
  "AppState \<Rightarrow> real \<Rightarrow> real \<Rightarrow> real \<Rightarrow> Refs \<Rightarrow> real \<times> Refs" where
  "control_SMITH_double st target level demand refs =
    (let modelArea = tankArea (deployedParadigm st);
         dModel = ddiv (dmul (dsub (lastOut (mpcStateRef refs)) demand) DT_double) modelArea;
         smith = (smithStateRef refs)
                   \<lparr>modelLevel := dadd (modelLevel (smithStateRef refs)) dModel\<rparr>;
         predError = dsub target (modelLevel smith);
         mismatch = dsub level (modelLevel smith);
         Kp = 4
     in (dadd (dmul Kp (dsub predError mismatch)) 50, refs\<lparr>smithStateRef := smith\<rparr>))"

text \<open>
  The law of the topology-editor variant for the SMITH algorithm,
  \<^verbatim>\<open>4 * error + 50\<close> with \<^verbatim>\<open>error = target - level\<close>, in double arithmetic.
\<close>

definition control_topo_SMITH_double :: "real \<Rightarrow> real \<Rightarrow> real" where
  "control_topo_SMITH_double target level = dadd (dmul 4 (dsub target level)) 50"

section \<open>Scenarios\<close>

text \<open>
  The plans of a list that a tick at \<open>nextT\<close> fires with a given action: pending
  and due.
\<close>

definition due_plans :: "ActionType \<Rightarrow> real \<Rightarrow> PlanStep list \<Rightarrow> PlanStep list" where
  "due_plans a nextT ps =
    filter (\<lambda>p. status p = pending \<and> nextT \<ge> triggerTime p \<and> actionType p = a) ps"

text \<open>
  Two plans queued from the initial state with no delay, one for the demand
  pattern and one for the setpoint pattern.
\<close>

definition constant7 :: DisturbanceConfig where
  "constant7 = \<lparr>dtype = CONSTANT, base = 7, amplitude = 0, frequency = 1 / 10, active = True\<rparr>"

definition constant300 :: DisturbanceConfig where
  "constant300 = \<lparr>dtype = CONSTANT, base = 300, amplitude = 0, frequency = 1 / 10, active = True\<rparr>"

definition planned_state :: "AppState \<times> Refs" where
  "planned_state =
    simulate [SetDraft constant7, SetPlanDelay 0, AddPlan ''p1'',
              SetScope TARGET, SetDraft constant300, AddPlan ''p2'']
      (initialState, initialRefs)"

text \<open>
  The PID paradigm deployed, a plan queued and one tick run with the sensor noise
  at its lower end.
\<close>

definition rnd_low :: Rnd where
  "rnd_low = \<lparr>rDemand = 1 / 2, rTarget = 1 / 2, rSensor = 0, rForecast = (\<lambda>_. 1 / 2)\<rparr>"

definition pid_state :: "AppState \<times> Refs" where
  "pid_state =
    simulate [Deploy traditional, AddPlan ''p1'', Tick 0 rnd_low] (initialState, initialRefs)"

text \<open>A pump output of 7 in tick 0 and of 0 in every later tick.\<close>

definition impulse :: "nat \<Rightarrow> real" where
  "impulse i = (if i = 0 then 7 else 0)"

text \<open>
  References with the Smith model level \<open>m\<close> and a last output of 50, which a
  demand of 50 leaves unchanged.
\<close>

definition smith_refs :: "real \<Rightarrow> Refs" where
  "smith_refs m =
    initialRefs\<lparr>smithStateRef := \<lparr>modelLevel = m, delayedLevel = 295\<rparr>,
                mpcStateRef := \<lparr>lastOut = 50\<rparr>\<rparr>"

section \<open>STEP waveform scenario\<close>

lemma js_rem_3_10: "js_rem 3 10 = 3"
  by (simp add: js_rem_def js_trunc_def)

lemma js_rem_7_10: "js_rem 7 10 = 7"
  by (simp add: js_rem_def js_trunc_def)

text \<open>
  Claim C9. The disturbance STEP(base = 50, amplitude = 100, frequency = 0.1) has
  period 10 s; it evaluates to 50 at t = 3 (localT = 3 < 5) and to 150 at t = 7
  (localT = 7 \<ge> 5), whatever the random draw.
\<close>

theorem step_waveform_scenario:
  "getDisturbanceValue r 3
      \<lparr>dtype = STEP, base = 50, amplitude = 100, frequency = 1 / 10, active = True\<rparr> = 50
   \<and> getDisturbanceValue r 7
      \<lparr>dtype = STEP, base = 50, amplitude = 100, frequency = 1 / 10, active = True\<rparr> = 150"
  by (simp add: getDisturbanceValue_def js_rem_3_10 js_rem_7_10)

section \<open>Tank level\<close>

lemma BUFFER_SIZE_50: "BUFFER_SIZE = 50"
  by (simp add: BUFFER_SIZE_def PIPE_DELAY_SECONDS_def DT_def round_def)

lemma MAX_HISTORY_600: "MAX_HISTORY = 600"
  by (simp add: MAX_HISTORY_def HISTORY_SECONDS_def DT_def round_def)

lemma updatePhysics_level_nonneg:
  "0 \<le> tankLevelRef (snd (updatePhysics st pumpInflow demandOutflow refs))"
  by (simp add: updatePhysics_def Let_def)

lemma tick_level_nonneg: "0 \<le> tankLevelRef (snd (tick ctime rnd sr))"
  by (simp add: tick_def Let_def updatePhysics_level_nonneg)

lemma deployParadigm_level: "tankLevelRef (snd (deployParadigm p sr)) = tankLevelRef (snd sr)"
  by (simp add: deployParadigm_def)

lemma apply_event_level_nonneg:
  "0 \<le> tankLevelRef (snd sr) \<Longrightarrow> 0 \<le> tankLevelRef (snd (apply_event e sr))"
  by (cases e) (simp_all add: tick_level_nonneg deployParadigm_level reset_def)

lemma simulate_level_nonneg:
  "0 \<le> tankLevelRef (snd sr) \<Longrightarrow> 0 \<le> tankLevelRef (snd (simulate evs sr))"
  unfolding simulate_def
  by (induction evs arbitrary: sr) (simp_all add: apply_event_level_nonneg)

lemma tick_topo_level_nonneg:
  "tick_topo nodes rnd sr = Some sr' \<Longrightarrow> 0 \<le> tankLevelRef (snd sr')"
  by (auto simp add: tick_topo_def Let_def split: option.splits)

lemma buffer_topo_defined:
  "0 < \<lfloor>pipe_delay / DT\<rfloor> \<Longrightarrow> fst (buffer_topo pipe_delay out buffer) \<noteq> None"
  by (simp add: buffer_topo_def Let_def)

lemma tick_topo_defined:
  assumes "0 < \<lfloor>node_field N_PIPE delay 5 nodes / DT\<rfloor>"
  shows "tick_topo nodes rnd sr \<noteq> None"
proof -
  have d: "\<And>out buffer. (fst (buffer_topo (node_field N_PIPE delay 5 nodes) out buffer) = None) = False"
    using buffer_topo_defined[OF assms] by simp
  show ?thesis
    by (simp add: tick_topo_def Let_def d split: option.split)
qed

text \<open>
  Claim C2. The true tank level is not negative after a physics update, from any
  state and configuration: after \<^const>\<open>updatePhysics\<close> itself, after a whole tick,
  after any sequence of ticks and configuration changes from the initial state,
  after a reset followed by any such sequence from any state, and, in the
  topology-editor variant, after a tick whose delayed read is defined (the pipe
  delay is at least one tick).
\<close>

theorem tank_level_never_negative:
  "0 \<le> tankLevelRef (snd (updatePhysics st pumpInflow demandOutflow refs))
   \<and> 0 \<le> tankLevelRef (snd (tick ctime rnd (st, refs)))
   \<and> 0 \<le> tankLevelRef (snd (simulate evs (initialState, initialRefs)))
   \<and> 0 \<le> tankLevelRef (snd (simulate (evs @ [Reset] @ evs') (st, refs)))
   \<and> (0 < \<lfloor>node_field N_PIPE delay 5 nodes / DT\<rfloor> \<longrightarrow>
        (\<exists>sr'. tick_topo nodes rnd (st, refs) = Some sr' \<and> 0 \<le> tankLevelRef (snd sr')))"
proof -
  have init: "0 \<le> tankLevelRef (snd (initialState, initialRefs))"
    by (simp add: initialRefs_def)
  have rs: "0 \<le> tankLevelRef (snd (simulate (evs @ [Reset] @ evs') (st, refs)))"
  proof -
    have "simulate (evs @ [Reset] @ evs') (st, refs)
          = simulate evs' (reset (simulate evs (st, refs)))"
      by (simp add: simulate_def)
    moreover have "0 \<le> tankLevelRef (snd (reset (simulate evs (st, refs))))"
      by (simp add: reset_def)
    ultimately show ?thesis by (simp add: simulate_level_nonneg)
  qed
  have topo: "0 < \<lfloor>node_field N_PIPE delay 5 nodes / DT\<rfloor> \<longrightarrow>
        (\<exists>sr'. tick_topo nodes rnd (st, refs) = Some sr' \<and> 0 \<le> tankLevelRef (snd sr'))"
    using tick_topo_defined[of nodes rnd "(st, refs)"] tick_topo_level_nonneg[of nodes rnd "(st, refs)"]
    by auto
  show ?thesis
    using updatePhysics_level_nonneg tick_level_nonneg simulate_level_nonneg[OF init] rs topo
    by blast
qed

lemma node_field_initial_delay: "node_field N_PIPE delay 5 initialNodes = 5"
  by (simp add: node_field_def initialNodes_def js_or_def)


theorem tank_level_never_negative_witness:
  "0 < \<lfloor>node_field N_PIPE delay 5 initialNodes / DT\<rfloor>
   \<and> (\<exists>sr'. tick_topo initialNodes rnd0 (initialState, initialRefs_topo) = Some sr'
          \<and> 0 \<le> tankLevelRef (snd sr'))
   \<and> 0 \<le> tankLevelRef (snd (tick 0 rnd0 (initialState, initialRefs)))"
proof -
  have h: "0 < \<lfloor>node_field N_PIPE delay 5 initialNodes / DT\<rfloor>"
    by (simp add: node_field_initial_delay DT_def)
  show ?thesis
    using h tank_level_never_negative
      [of initialState 0 0 initialRefs_topo 0 rnd0 "[]" "[]" initialNodes]
      tank_level_never_negative [of initialState 0 0 initialRefs 0 rnd0 "[]" "[]" initialNodes]
    by blast
qed

section \<open>Controller bank: integral limit, pump limit\<close>

lemma control_PID_integral:
  "integralRef (snd (control_PID st e refs)) =
    (if \<bar>integralRef refs + e * DT\<bar> > 500 then sgn (integralRef refs + e * DT) * 500
     else integralRef refs + e * DT)"
  by (simp add: control_PID_def Let_def)

lemma runControl_PID_integral:
  "algorithm (deployedParadigm st) = PID \<Longrightarrow>
   integralRef (snd (runControl st ctime rs target level demand refs)) =
     integralRef (snd (control_PID st (target - level) refs))"
  by (simp add: runControl_def Let_def)

lemma integral_step_pos:
  fixes i e :: real
  assumes "0 < e" "\<bar>i\<bar> \<le> 500"
  shows "(if \<bar>i + e * DT\<bar> > 500 then sgn (i + e * DT) * 500 else i + e * DT)
          = min 500 (i + e * DT)"
proof -
  have "0 < e * DT" using assms by (simp add: DT_def)
  then show ?thesis using assms by (auto simp add: sgn_if min_def abs_if split: if_splits)
qed

lemma control_run_integral:
  assumes "algorithm (deployedParadigm st) = PID" "0 < target - level"
  shows "\<bar>integralRef refs\<bar> \<le> 500 \<Longrightarrow>
    integralRef (control_run n st ctime rs target level demand refs)
      = min 500 (integralRef refs + real n * ((target - level) * DT))"
proof (induction n arbitrary: refs)
  case 0
  then show ?case by simp
next
  case (Suc n)
  let ?e = "target - level"
  let ?r = "snd (runControl st ctime rs target level demand refs)"
  have pos: "0 < ?e * DT" using assms(2) by (simp add: DT_def)
  have step: "integralRef ?r = min 500 (integralRef refs + ?e * DT)"
    using runControl_PID_integral[OF assms(1)] control_PID_integral
      integral_step_pos[OF assms(2) Suc.prems] by simp
  have bnd: "\<bar>integralRef ?r\<bar> \<le> 500"
    using step Suc.prems pos by (simp add: min_def abs_if split: if_splits)
  have npos: "0 \<le> real n * (?e * DT)" using pos by simp
  have "integralRef (control_run (Suc n) st ctime rs target level demand refs)
        = min 500 (integralRef ?r + real n * (?e * DT))"
    using Suc.IH[OF bnd] by simp
  also have "\<dots> = min 500 (integralRef refs + real (Suc n) * (?e * DT))"
    using step npos by (simp add: min_def algebra_simps split: if_splits)
  finally show ?case .
qed

text \<open>
  Claim C4. With the PID algorithm deployed and a constant positive error driven
  for \<open>n\<close> ticks, from an accumulator within \<open>\<plusminus>500\<close> (it starts at 0), the integral
  accumulator stays within \<open>\<plusminus>500\<close> for every \<open>n\<close>, it is the unclamped sum cut off at
  500, and it is exactly 500 from the tick on at which the sum reaches 500.
\<close>

theorem pid_integral_anti_windup:
  assumes "algorithm (deployedParadigm st) = PID"
    and "0 < target - level"
    and "\<bar>integralRef refs\<bar> \<le> 500"
  shows "\<bar>integralRef (control_run n st ctime rs target level demand refs)\<bar> \<le> 500
    \<and> integralRef (control_run n st ctime rs target level demand refs)
        = min 500 (integralRef refs + real n * ((target - level) * DT))
    \<and> (500 - integralRef refs \<le> real n * ((target - level) * DT) \<longrightarrow>
        integralRef (control_run n st ctime rs target level demand refs) = 500)"
proof -
  have eq: "integralRef (control_run n st ctime rs target level demand refs)
        = min 500 (integralRef refs + real n * ((target - level) * DT))"
    using control_run_integral[OF assms(1,2) assms(3)] .
  have "0 \<le> real n * ((target - level) * DT)" using assms(2) by (simp add: DT_def)
  then show ?thesis using eq assms(3) by (auto simp add: min_def abs_if split: if_splits)
qed

text \<open>
  In exact arithmetic the model level and the demand cancel in the SMITH output.
\<close>

lemma control_SMITH_exact:
  "fst (control_SMITH st target level demand refs) = 4 * (target - level) + 50"
  by (simp add: control_SMITH_def Let_def)

theorem pid_integral_anti_windup_witness:
  "algorithm (deployedParadigm (initialState\<lparr>deployedParadigm := traditional\<rparr>)) = PID
   \<and> (0::real) < 1295 - 295
   \<and> \<bar>integralRef initialRefs\<bar> \<le> 500
   \<and> integralRef (control_run 5 (initialState\<lparr>deployedParadigm := traditional\<rparr>) 0
         (\<lambda>_. 1 / 2) 1295 295 50 initialRefs) = 500"
proof -
  have a: "algorithm (deployedParadigm (initialState\<lparr>deployedParadigm := traditional\<rparr>)) = PID"
    by (simp add: traditional_def)
  have b: "(0::real) < 1295 - 295" by simp
  have c: "\<bar>integralRef initialRefs\<bar> \<le> 500" by (simp add: initialRefs_def)
  show ?thesis
    using a b c pid_integral_anti_windup [OF a b c, of 5 0 "\<lambda>_. 1 / 2" 50]
    by (simp add: initialRefs_def DT_def)
qed

lemma runControl_fst:
  "fst (runControl st ctime rs target level demand refs) =
    max 0 (min (maxFlow st)
      (fst (case algorithm (deployedParadigm st) of
              PID \<Rightarrow> control_PID st (target - level) refs
            | SMITH \<Rightarrow> control_SMITH st target level demand refs
            | MPC \<Rightarrow> control_MPC st ctime rs target level refs)))"
  by (simp add: runControl_def Let_def)

lemma runControl_lastOut:
  "lastOut (mpcStateRef (snd (runControl st ctime rs target level demand refs)))
     = fst (runControl st ctime rs target level demand refs)"
  by (simp add: runControl_def Let_def)

lemma control_MPC_fst:
  "fst (control_MPC st ctime rs target level refs)
     = lastOut (mpcStateRef refs)
       + (target - mpc_lookahead st ctime rs (pipeBufferRef refs) level) * 2"
  by (simp add: control_MPC_def Let_def)

lemma control_SMITH_model:
  "modelLevel (smithStateRef (snd (control_SMITH st target level demand refs)))
     = modelLevel (smithStateRef refs)
       + ((lastOut (mpcStateRef refs) - demand) * DT) / tankArea (deployedParadigm st)"
  by (simp add: control_SMITH_def Let_def)

text \<open>
  Claim C5. For every algorithm the output of \<^const>\<open>runControl\<close> lies between 0 and
  the maximal flow, which is \<open>250 \<cdot> (1 - value/100)\<close> under an active pump-efficiency
  fault (of a value within its range, up to 100) and 250 otherwise; the output is
  stored as \<open>lastOut\<close>, which the next MPC output starts from and the next update
  of the Smith model integrates.
\<close>

theorem pump_output_clamped:
  assumes "fault_active (pumpEfficiency (faults st)) \<longrightarrow>
           fault_value (pumpEfficiency (faults st)) \<le> 100"
  shows "0 \<le> fst (runControl st ctime rs target level demand refs)
    \<and> fst (runControl st ctime rs target level demand refs)
        \<le> (if fault_active (pumpEfficiency (faults st))
            then 250 * (1 - fault_value (pumpEfficiency (faults st)) / 100) else 250)
    \<and> lastOut (mpcStateRef (snd (runControl st ctime rs target level demand refs)))
        = fst (runControl st ctime rs target level demand refs)
    \<and> fst (control_MPC st2 ctime2 rs2 target2 level2
              (snd (runControl st ctime rs target level demand refs)))
        = fst (runControl st ctime rs target level demand refs)
          + (target2 - mpc_lookahead st2 ctime2 rs2
               (pipeBufferRef (snd (runControl st ctime rs target level demand refs))) level2) * 2
    \<and> modelLevel (smithStateRef (snd (control_SMITH st2 target2 level2 demand2
              (snd (runControl st ctime rs target level demand refs)))))
        = modelLevel (smithStateRef (snd (runControl st ctime rs target level demand refs)))
          + ((fst (runControl st ctime rs target level demand refs) - demand2) * DT)
              / tankArea (deployedParadigm st2)"
proof -
  have m: "0 \<le> maxFlow st" using assms by (simp add: maxFlow_def)
  have "0 \<le> fst (runControl st ctime rs target level demand refs)"
    by (simp add: runControl_fst)
  moreover have "fst (runControl st ctime rs target level demand refs) \<le> maxFlow st"
    using m by (simp add: runControl_fst)
  ultimately show ?thesis
    by (simp add: runControl_lastOut control_MPC_fst control_SMITH_model maxFlow_def)
qed

text \<open>
  Claim C8. PID scenario: with tank area 200 (gain 5), no pump-efficiency fault,
  error 10, the integral accumulator of the tick 0 and the derivative 0, the PID
  output is \<open>5 \<cdot> 10 + 0 + 0 + 50 = 100\<close>, and the limit to \<open>[0, 250]\<close> leaves 100.
\<close>

theorem pid_numeric_scenario:
  assumes "algorithm (deployedParadigm st) = PID"
    and "tankArea (deployedParadigm st) = 200"
    and "\<not> fault_active (pumpEfficiency (faults st))"
    and "target - level = 10"
    and "integralRef (snd (control_PID st (target - level) refs)) = 0"
    and "(target - level - lastErrorRef refs) / DT = 0"
  shows "fst (control_PID st (target - level) refs) = 5 * 10 + 0 + 0 + 50
    \<and> fst (runControl st ctime rs target level demand refs) = 100"
proof -
  have i: "(if \<bar>integralRef refs + 10 * DT\<bar> > 500 then sgn (integralRef refs + 10 * DT) * 500
            else integralRef refs + 10 * DT) = 0"
    using assms(4,5) by (simp add: control_PID_integral)
  have p: "fst (control_PID st (target - level) refs) = 100"
    using assms(2,4,6) i by (simp add: control_PID_def Let_def)
  show ?thesis
    using p assms(1,3) by (simp add: runControl_fst maxFlow_def)
qed


theorem pump_output_clamped_witness:
  "fault_value (pumpEfficiency (faults (initialState\<lparr>faults := faults initialState
       \<lparr>pumpEfficiency := \<lparr>fault_active = True, fault_value = 80\<rparr>\<rparr>\<rparr>))) \<le> 100
   \<and> 0 \<le> fst (runControl (initialState\<lparr>faults := faults initialState
       \<lparr>pumpEfficiency := \<lparr>fault_active = True, fault_value = 80\<rparr>\<rparr>\<rparr>)
       0 (\<lambda>_. 1 / 2) 295 200 50 initialRefs)
   \<and> fst (runControl (initialState\<lparr>faults := faults initialState
       \<lparr>pumpEfficiency := \<lparr>fault_active = True, fault_value = 80\<rparr>\<rparr>\<rparr>)
       0 (\<lambda>_. 1 / 2) 295 200 50 initialRefs) \<le> 50"
proof -
  let ?st = "initialState\<lparr>faults := faults initialState
       \<lparr>pumpEfficiency := \<lparr>fault_active = True, fault_value = 80\<rparr>\<rparr>\<rparr>"
  have h: "fault_value (pumpEfficiency (faults ?st)) \<le> 100" by simp
  then have "fault_active (pumpEfficiency (faults ?st)) \<longrightarrow>
      fault_value (pumpEfficiency (faults ?st)) \<le> 100" by simp
  from pump_output_clamped [OF this, of 0 "\<lambda>_. 1 / 2" 295 200 50 initialRefs]
  show ?thesis using h by simp
qed

theorem pid_numeric_scenario_witness:
  "algorithm (deployedParadigm (initialState\<lparr>deployedParadigm := traditional\<rparr>)) = PID
   \<and> tankArea (deployedParadigm (initialState\<lparr>deployedParadigm := traditional\<rparr>)) = 200
   \<and> (305::real) - 295 = 10
   \<and> fst (runControl (initialState\<lparr>deployedParadigm := traditional\<rparr>) 0 (\<lambda>_. 1 / 2)
         305 295 50 (initialRefs\<lparr>integralRef := - 1, lastErrorRef := 10\<rparr>)) = 100"
proof -
  let ?st = "initialState\<lparr>deployedParadigm := traditional\<rparr>"
  let ?refs = "initialRefs\<lparr>integralRef := - 1, lastErrorRef := 10\<rparr>"
  have a: "algorithm (deployedParadigm ?st) = PID" by (simp add: traditional_def)
  have b: "tankArea (deployedParadigm ?st) = 200" by (simp add: traditional_def)
  have c: "\<not> fault_active (pumpEfficiency (faults ?st))" by (simp add: initialState_def)
  have d: "(305::real) - 295 = 10" by simp
  have e: "integralRef (snd (control_PID ?st (305 - 295) ?refs)) = 0"
    by (simp add: control_PID_def Let_def DT_def)
  have f: "(305 - 295 - lastErrorRef ?refs) / DT = 0" by simp
  from pid_numeric_scenario [OF a b c d e f, of 0 "\<lambda>_. 1 / 2" 50]
  show ?thesis using a b by simp
qed

section \<open>The first tick of the initial configuration\<close>

lemma js_rem_small: "js_rem (1 / 10) 10 = 1 / 10"
  by (simp add: js_rem_def js_trunc_def)

lemma demand_first_tick:
  "getDisturbanceValue r (1 / 10)
     \<lparr>dtype = STEP, base = 50, amplitude = 100, frequency = 1 / 10, active = True\<rparr> = 50"
  by (simp add: getDisturbanceValue_def js_rem_small)

lemma getDisturbanceValue_CONSTANT:
  "dtype config = CONSTANT \<Longrightarrow> getDisturbanceValue r t config = base config"
  by (simp add: getDisturbanceValue_def Let_def)

lemma tick_snd:
  "snd (tick ctime rnd sr) =
    snd (updatePhysics (fst sr)
      (fst (runControl (fst sr) ctime (rForecast rnd)
         (getDisturbanceValue (rTarget rnd) (time (fst sr) + DT) (activeSetpointPattern (fst sr)))
         ((if fault_active (sensorDrift (faults (fst sr)))
           then tankLevelRef (snd sr) + fault_value (sensorDrift (faults (fst sr)))
           else tankLevelRef (snd sr)) + (rSensor rnd - 1 / 2) * (1 / 10))
         (getDisturbanceValue (rDemand rnd) (time (fst sr) + DT) (activeDemandPattern (fst sr)))
         (snd sr)))
      (getDisturbanceValue (rDemand rnd) (time (fst sr) + DT) (activeDemandPattern (fst sr)))
      (snd (runControl (fst sr) ctime (rForecast rnd)
         (getDisturbanceValue (rTarget rnd) (time (fst sr) + DT) (activeSetpointPattern (fst sr)))
         ((if fault_active (sensorDrift (faults (fst sr)))
           then tankLevelRef (snd sr) + fault_value (sensorDrift (faults (fst sr)))
           else tankLevelRef (snd sr)) + (rSensor rnd - 1 / 2) * (1 / 10))
         (getDisturbanceValue (rDemand rnd) (time (fst sr) + DT) (activeDemandPattern (fst sr)))
         (snd sr))))"
  by (simp add: tick_def Let_def)

lemma updatePhysics_keeps_controller:
  "mpcStateRef (snd (updatePhysics st p d refs)) = mpcStateRef refs"
  "smithStateRef (snd (updatePhysics st p d refs)) = smithStateRef refs"
  "integralRef (snd (updatePhysics st p d refs)) = integralRef refs"
  "lastErrorRef (snd (updatePhysics st p d refs)) = lastErrorRef refs"
  by (simp_all add: updatePhysics_def Let_def)

lemma runControl_SMITH_model:
  "algorithm (deployedParadigm st) = SMITH \<Longrightarrow>
   smithStateRef (snd (runControl st ctime rs target level demand refs))
     = smithStateRef (snd (control_SMITH st target level demand refs))"
  by (simp add: runControl_def Let_def)

lemma first_tick_lastOut:
  "lastOut (mpcStateRef (snd (tick 0 rnd0 (initialState, initialRefs)))) = 50"
proof -
  have "fst (runControl initialState 0 (\<lambda>_. 1 / 2) 295 295 50 initialRefs) = 50"
    by (simp add: runControl_fst initialState_def control_SMITH_def Let_def maxFlow_def)
  then show ?thesis
    by (simp add: tick_snd updatePhysics_keeps_controller runControl_lastOut rnd0_def)
       (simp add: initialState_def initialRefs_def DT_def demand_first_tick
          getDisturbanceValue_CONSTANT)
qed

section \<open>Deploying a paradigm\<close>

lemma first_tick_modelLevel:
  "modelLevel (smithStateRef (snd (tick 0 rnd0 (initialState, initialRefs)))) = 295 - 1 / 16"
proof -
  have a: "algorithm (deployedParadigm initialState) = SMITH" by (simp add: initialState_def)
  have "modelLevel (smithStateRef (snd (control_SMITH initialState 295 295 50 initialRefs)))
          = 295 - 1 / 16"
    by (simp add: control_SMITH_model initialState_def initialRefs_def DT_def)
  then show ?thesis
    by (simp add: tick_snd updatePhysics_keeps_controller runControl_SMITH_model[OF a] rnd0_def)
       (simp add: initialState_def initialRefs_def DT_def demand_first_tick
          getDisturbanceValue_CONSTANT)
qed

text \<open>
  Claim C6, as stated, fails: after the first tick of the initial configuration
  the last commanded output is 50 and the Smith model level is below 295, and
  deploying the MPC paradigm then leaves both as they are, not at their initial
  values 0 and 295.
\<close>

theorem deploy_keeps_predictor_state_counterexample:
  "lastOut (mpcStateRef (snd (deployParadigm modern (tick 0 rnd0 (initialState, initialRefs)))))
     \<noteq> lastOut (mpcStateRef initialRefs)
   \<and> modelLevel (smithStateRef (snd (deployParadigm modern
        (tick 0 rnd0 (initialState, initialRefs)))))
     \<noteq> modelLevel (smithStateRef initialRefs)"
  by (simp add: deployParadigm_def first_tick_lastOut first_tick_modelLevel)
     (simp add: initialRefs_def)

lemma runControl_PID_fst:
  "algorithm (deployedParadigm st) = PID \<Longrightarrow>
   fst (runControl st ctime rs target level demand refs)
     = max 0 (min (maxFlow st) (fst (control_PID st (target - level) refs)))"
  by (simp add: runControl_fst)

lemma control_PID_fst_depends:
  "integralRef refs = integralRef refs' \<Longrightarrow> lastErrorRef refs = lastErrorRef refs' \<Longrightarrow>
   fst (control_PID st e refs) = fst (control_PID st e refs')"
  by (simp add: control_PID_def Let_def)

text \<open>
  Claim C6, amended. Deploying a paradigm sets the integral accumulator and the
  last error to 0 and leaves the predictor state (the Smith state and the last
  commanded output) unchanged; so the first PID output after a deployment is the
  same whatever the references held before it.
\<close>

theorem deployParadigm_resets_integral_and_error:
  "integralRef (snd (deployParadigm p (st, refs))) = 0
   \<and> lastErrorRef (snd (deployParadigm p (st, refs))) = 0
   \<and> smithStateRef (snd (deployParadigm p (st, refs))) = smithStateRef refs
   \<and> mpcStateRef (snd (deployParadigm p (st, refs))) = mpcStateRef refs
   \<and> deployedParadigm (fst (deployParadigm p (st, refs))) = p
   \<and> (algorithm p = PID \<longrightarrow>
        fst (runControl (fst (deployParadigm p (st, refs))) ctime rs target level demand
              (snd (deployParadigm p (st, refs))))
        = fst (runControl (fst (deployParadigm p (st, refs'))) ctime rs target level demand
              (snd (deployParadigm p (st, refs')))))"
proof -
  have "algorithm p = PID \<longrightarrow>
        fst (runControl (fst (deployParadigm p (st, refs))) ctime rs target level demand
              (snd (deployParadigm p (st, refs))))
        = fst (runControl (fst (deployParadigm p (st, refs'))) ctime rs target level demand
              (snd (deployParadigm p (st, refs'))))"
  proof
    assume a: "algorithm p = PID"
    have e: "fst (deployParadigm p (st, refs')) = fst (deployParadigm p (st, refs))"
      by (simp add: deployParadigm_def)
    have alg: "algorithm (deployedParadigm (fst (deployParadigm p (st, refs)))) = PID"
      using a by (simp add: deployParadigm_def)
    have "fst (control_PID (fst (deployParadigm p (st, refs))) (target - level)
                 (snd (deployParadigm p (st, refs))))
          = fst (control_PID (fst (deployParadigm p (st, refs))) (target - level)
                 (snd (deployParadigm p (st, refs'))))"
      by (rule control_PID_fst_depends) (simp_all add: deployParadigm_def)
    then show "fst (runControl (fst (deployParadigm p (st, refs))) ctime rs target level demand
              (snd (deployParadigm p (st, refs))))
        = fst (runControl (fst (deployParadigm p (st, refs'))) ctime rs target level demand
              (snd (deployParadigm p (st, refs'))))"
      using alg by (simp add: e runControl_PID_fst)
  qed
  then show ?thesis by (simp add: deployParadigm_def)
qed

theorem deployParadigm_resets_integral_and_error_witness:
  "algorithm traditional = PID
   \<and> integralRef (snd (deployParadigm traditional (initialState, initialRefs\<lparr>integralRef := 400, lastErrorRef := 3\<rparr>))) = 0
   \<and> fst (runControl (fst (deployParadigm traditional (initialState, initialRefs\<lparr>integralRef := 400, lastErrorRef := 3\<rparr>)))
          0 (\<lambda>_. 1 / 2) 305 295 50
          (snd (deployParadigm traditional (initialState, initialRefs\<lparr>integralRef := 400, lastErrorRef := 3\<rparr>))))
     = fst (runControl (fst (deployParadigm traditional (initialState, initialRefs)))
          0 (\<lambda>_. 1 / 2) 305 295 50
          (snd (deployParadigm traditional (initialState, initialRefs))))"
proof -
  have a: "algorithm traditional = PID" by (simp add: traditional_def)
  show ?thesis
    using a deployParadigm_resets_integral_and_error
      [of traditional initialState "initialRefs\<lparr>integralRef := 400, lastErrorRef := 3\<rparr>"
          0 "\<lambda>_. 1 / 2" 305 295 50 initialRefs]
    by simp
qed

section \<open>Plans fire for the following tick\<close>

lemma MAX_HISTORY_pos: "0 < MAX_HISTORY"
  by (simp add: MAX_HISTORY_600)

lemma last_appendHistory: "last (appendHistory d prev) = d"
  using MAX_HISTORY_pos by (simp add: appendHistory_def Let_def)

lemma tick_history:
  "history (fst (tick ctime rnd sr)) =
    appendHistory
      \<lparr>ch_t = time (fst sr) + DT,
       ch_level = tankLevelRef (snd (tick ctime rnd sr)),
       ch_target = getDisturbanceValue (rTarget rnd) (time (fst sr) + DT)
                     (activeSetpointPattern (fst sr)),
       ch_flowIn = fst (runControl (fst sr) ctime (rForecast rnd)
         (getDisturbanceValue (rTarget rnd) (time (fst sr) + DT) (activeSetpointPattern (fst sr)))
         ((if fault_active (sensorDrift (faults (fst sr)))
           then tankLevelRef (snd sr) + fault_value (sensorDrift (faults (fst sr)))
           else tankLevelRef (snd sr)) + (rSensor rnd - 1 / 2) * (1 / 10))
         (getDisturbanceValue (rDemand rnd) (time (fst sr) + DT) (activeDemandPattern (fst sr)))
         (snd sr)),
       ch_flowOut = getDisturbanceValue (rDemand rnd) (time (fst sr) + DT)
                      (activeDemandPattern (fst sr))\<rparr>
      (history (fst sr))"
  by (simp add: tick_def Let_def)

lemma tick_sample:
  "ch_flowOut (last (history (fst (tick ctime rnd sr))))
     = getDisturbanceValue (rDemand rnd) (time (fst sr) + DT) (activeDemandPattern (fst sr))"
  "ch_target (last (history (fst (tick ctime rnd sr))))
     = getDisturbanceValue (rTarget rnd) (time (fst sr) + DT) (activeSetpointPattern (fst sr))"
  by (simp_all add: tick_history last_appendHistory)

lemma tick_state:
  "time (fst (tick ctime rnd sr)) = time (fst sr) + DT"
  "plans (fst (tick ctime rnd sr)) =
     fst (checkPlans (time (fst sr) + DT) (plans (fst sr))
            (activeDemandPattern (fst sr), activeSetpointPattern (fst sr)))"
  "activeDemandPattern (fst (tick ctime rnd sr)) =
     fst (snd (checkPlans (time (fst sr) + DT) (plans (fst sr))
            (activeDemandPattern (fst sr), activeSetpointPattern (fst sr))))"
  "activeSetpointPattern (fst (tick ctime rnd sr)) =
     snd (snd (checkPlans (time (fst sr) + DT) (plans (fst sr))
            (activeDemandPattern (fst sr), activeSetpointPattern (fst sr))))"
  "deployedParadigm (fst (tick ctime rnd sr)) = deployedParadigm (fst sr)"
  "faults (fst (tick ctime rnd sr)) = faults (fst sr)"
  by (simp_all add: tick_def Let_def)

lemma checkPlans_plans:
  "fst (checkPlans nextT ps q) =
    map (\<lambda>p. if status p = pending \<and> nextT \<ge> triggerTime p then p\<lparr>status := completed\<rparr> else p) ps"
  by (induction ps arbitrary: q) (simp_all add: Let_def)

lemma ActionType_not_disturbance: "(a \<noteq> CHANGE_DISTURBANCE) = (a = CHANGE_SETPOINT)"
  by (cases a) simp_all

lemma checkPlans_demand:
  "fst (snd (checkPlans nextT ps (d, s))) =
    (if due_plans CHANGE_DISTURBANCE nextT ps = [] then d
     else payload (last (due_plans CHANGE_DISTURBANCE nextT ps)))"
proof (induction ps arbitrary: d s)
  case Nil
  then show ?case by (simp add: due_plans_def)
next
  case (Cons p ps)
  show ?case
  proof (cases "status p = pending \<and> nextT \<ge> triggerTime p")
    case True
    then show ?thesis
      using Cons.IH[of "payload p" s] Cons.IH[of d "payload p"]
      by (simp add: Let_def executePlan_def due_plans_def)
  next
    case False
    then show ?thesis
      using Cons.IH[of d s] by (auto simp add: Let_def due_plans_def)
  qed
qed

lemma checkPlans_setpoint:
  "snd (snd (checkPlans nextT ps (d, s))) =
    (if due_plans CHANGE_SETPOINT nextT ps = [] then s
     else payload (last (due_plans CHANGE_SETPOINT nextT ps)))"
proof (induction ps arbitrary: d s)
  case Nil
  then show ?case by (simp add: due_plans_def)
next
  case (Cons p ps)
  show ?case
  proof (cases "status p = pending \<and> nextT \<ge> triggerTime p")
    case True
    then show ?thesis
      using Cons.IH[of "payload p" s] Cons.IH[of d "payload p"]
      by (simp add: Let_def executePlan_def due_plans_def ActionType_not_disturbance)
  next
    case False
    then show ?thesis
      using Cons.IH[of d s] by (auto simp add: Let_def due_plans_def)
  qed
qed

text \<open>
  Claim C1, amended. A tick evaluates demand and target with the patterns that
  were active before it, also when it fires a plan; every pending plan that is due
  is marked completed in that tick; the payload of the last plan fired for the
  demand (or for the setpoint) is the active pattern after the tick, and the
  following tick evaluates the demand (the target) with it.
\<close>

theorem plan_effect_from_next_tick:
  "ch_flowOut (last (history (fst (tick ctime rnd (st, refs)))))
     = getDisturbanceValue (rDemand rnd) (time st + DT) (activeDemandPattern st)
   \<and> ch_target (last (history (fst (tick ctime rnd (st, refs)))))
     = getDisturbanceValue (rTarget rnd) (time st + DT) (activeSetpointPattern st)
   \<and> plans (fst (tick ctime rnd (st, refs)))
     = map (\<lambda>p. if status p = pending \<and> time st + DT \<ge> triggerTime p
                 then p\<lparr>status := completed\<rparr> else p) (plans st)
   \<and> (due_plans CHANGE_DISTURBANCE (time st + DT) (plans st) \<noteq> [] \<longrightarrow>
        activeDemandPattern (fst (tick ctime rnd (st, refs)))
          = payload (last (due_plans CHANGE_DISTURBANCE (time st + DT) (plans st)))
        \<and> ch_flowOut (last (history (fst (tick ctime' rnd' (tick ctime rnd (st, refs))))))
          = getDisturbanceValue (rDemand rnd') (time st + DT + DT)
              (payload (last (due_plans CHANGE_DISTURBANCE (time st + DT) (plans st)))))
   \<and> (due_plans CHANGE_SETPOINT (time st + DT) (plans st) \<noteq> [] \<longrightarrow>
        activeSetpointPattern (fst (tick ctime rnd (st, refs)))
          = payload (last (due_plans CHANGE_SETPOINT (time st + DT) (plans st)))
        \<and> ch_target (last (history (fst (tick ctime' rnd' (tick ctime rnd (st, refs))))))
          = getDisturbanceValue (rTarget rnd') (time st + DT + DT)
              (payload (last (due_plans CHANGE_SETPOINT (time st + DT) (plans st)))))"
  by (simp add: tick_sample tick_state checkPlans_plans checkPlans_demand checkPlans_setpoint)

lemma planned_state_plans:
  "plans (fst planned_state) =
    [\<lparr>plan_id = ''p1'', triggerTime = 0, actionType = CHANGE_DISTURBANCE,
      payload = constant7, status = pending\<rparr>,
     \<lparr>plan_id = ''p2'', triggerTime = 0, actionType = CHANGE_SETPOINT,
      payload = constant300, status = pending\<rparr>]"
  by (simp add: planned_state_def simulate_def addPlan_def Let_def initialState_def)

lemma planned_state_rest:
  "time (fst planned_state) = 0"
  "activeDemandPattern (fst planned_state) =
     \<lparr>dtype = STEP, base = 50, amplitude = 100, frequency = 1 / 10, active = True\<rparr>"
  "activeSetpointPattern (fst planned_state) =
     \<lparr>dtype = CONSTANT, base = 295, amplitude = 0, frequency = 0, active = True\<rparr>"
  by (simp_all add: planned_state_def simulate_def addPlan_def Let_def initialState_def)

lemma planned_state_due:
  "due_plans CHANGE_DISTURBANCE (1 / 10) (plans (fst planned_state))
     = [\<lparr>plan_id = ''p1'', triggerTime = 0, actionType = CHANGE_DISTURBANCE,
         payload = constant7, status = pending\<rparr>]"
  "due_plans CHANGE_SETPOINT (1 / 10) (plans (fst planned_state))
     = [\<lparr>plan_id = ''p2'', triggerTime = 0, actionType = CHANGE_SETPOINT,
         payload = constant300, status = pending\<rparr>]"
  by (simp_all add: planned_state_plans due_plans_def)

text \<open>
  Claim C1, as stated, fails: the tick that fires both queued plans records the
  demand 50 and the target 295 of the old patterns, not the values 7 and 300 of
  the payloads at that time.
\<close>

theorem plan_effect_same_tick_counterexample:
  "map status (plans (fst (tick 0 rnd0 planned_state))) = [completed, completed]
   \<and> ch_flowOut (last (history (fst (tick 0 rnd0 planned_state))))
       \<noteq> getDisturbanceValue (rDemand rnd0) (time (fst (tick 0 rnd0 planned_state)))
            (payload (plans (fst (tick 0 rnd0 planned_state)) ! 0))
   \<and> ch_target (last (history (fst (tick 0 rnd0 planned_state))))
       \<noteq> getDisturbanceValue (rTarget rnd0) (time (fst (tick 0 rnd0 planned_state)))
            (payload (plans (fst (tick 0 rnd0 planned_state)) ! 1))"
  by (simp add: tick_sample tick_state checkPlans_plans planned_state_plans planned_state_rest
      DT_def demand_first_tick getDisturbanceValue_CONSTANT constant7_def constant300_def)

theorem plan_effect_from_next_tick_witness:
  "due_plans CHANGE_DISTURBANCE (time (fst planned_state) + DT) (plans (fst planned_state)) \<noteq> []
   \<and> due_plans CHANGE_SETPOINT (time (fst planned_state) + DT) (plans (fst planned_state)) \<noteq> []
   \<and> ch_flowOut (last (history (fst (tick 0 rnd0 planned_state)))) = 50
   \<and> ch_target (last (history (fst (tick 0 rnd0 planned_state)))) = 295
   \<and> activeDemandPattern (fst (tick 0 rnd0 planned_state)) = constant7
   \<and> activeSetpointPattern (fst (tick 0 rnd0 planned_state)) = constant300
   \<and> ch_flowOut (last (history (fst (tick 0 rnd0 (tick 0 rnd0 planned_state))))) = 7
   \<and> ch_target (last (history (fst (tick 0 rnd0 (tick 0 rnd0 planned_state))))) = 300"
  using plan_effect_from_next_tick [of 0 rnd0 "fst planned_state" "snd planned_state" 0 rnd0]
  by (simp add: planned_state_due planned_state_rest DT_def demand_first_tick
      getDisturbanceValue_CONSTANT constant7_def constant300_def)


section \<open>Reset\<close>

lemma reset_keeps:
  "plans (fst (reset sr)) = plans (fst sr)"
  "integralRef (snd (reset sr)) = integralRef (snd sr)"
  "lastErrorRef (snd (reset sr)) = lastErrorRef (snd sr)"
  "smithStateRef (snd (reset sr)) = smithStateRef (snd sr)"
  "mpcStateRef (snd (reset sr)) = mpcStateRef (snd sr)"
  by (simp_all add: reset_def)

lemma runControl_lastError:
  "lastErrorRef (snd (runControl st ctime rs target level demand refs)) = target - level"
  by (simp add: runControl_def Let_def)

lemma pid_state_pre:
  "simulate [Deploy traditional, AddPlan ''p1''] (initialState, initialRefs)
     = (addPlan ''p1'' (initialState\<lparr>deployedParadigm := traditional\<rparr>),
        initialRefs\<lparr>integralRef := 0, lastErrorRef := 0\<rparr>)"
  by (simp add: simulate_def deployParadigm_def)

lemma pid_state_pre_fst:
  "algorithm (deployedParadigm (addPlan ''p1'' (initialState\<lparr>deployedParadigm := traditional\<rparr>))) = PID"
  "isRunning (addPlan ''p1'' (initialState\<lparr>deployedParadigm := traditional\<rparr>))"
  "time (addPlan ''p1'' (initialState\<lparr>deployedParadigm := traditional\<rparr>)) = 0"
  "activeSetpointPattern (addPlan ''p1'' (initialState\<lparr>deployedParadigm := traditional\<rparr>))
     = \<lparr>dtype = CONSTANT, base = 295, amplitude = 0, frequency = 0, active = True\<rparr>"
  "fault_active (sensorDrift (faults (addPlan ''p1'' (initialState\<lparr>deployedParadigm := traditional\<rparr>)))) = False"
  "plans (addPlan ''p1'' (initialState\<lparr>deployedParadigm := traditional\<rparr>))
     = [\<lparr>plan_id = ''p1'', triggerTime = 10, actionType = CHANGE_DISTURBANCE,
         payload = \<lparr>dtype = STEP, base = 50, amplitude = 100, frequency = 1 / 10, active = True\<rparr>,
         status = pending\<rparr>]"
  by (simp_all add: addPlan_def Let_def initialState_def traditional_def)

lemma pid_state_eq:
  "pid_state = tick 0 rnd_low (addPlan ''p1'' (initialState\<lparr>deployedParadigm := traditional\<rparr>),
        initialRefs\<lparr>integralRef := 0, lastErrorRef := 0\<rparr>)"
proof -
  have "pid_state = apply_event (Tick 0 rnd_low)
      (simulate [Deploy traditional, AddPlan ''p1''] (initialState, initialRefs))"
    by (simp add: pid_state_def simulate_def)
  then show ?thesis by (simp add: pid_state_pre pid_state_pre_fst)
qed

lemma pid_state_values:
  "integralRef (snd pid_state) = 1 / 200"
  "lastErrorRef (snd pid_state) = 1 / 20"
  "plans (fst pid_state)
     = [\<lparr>plan_id = ''p1'', triggerTime = 10, actionType = CHANGE_DISTURBANCE,
         payload = \<lparr>dtype = STEP, base = 50, amplitude = 100, frequency = 1 / 10, active = True\<rparr>,
         status = pending\<rparr>]"
  by (simp_all add: pid_state_eq tick_snd tick_state updatePhysics_keeps_controller
      runControl_lastError runControl_PID_integral pid_state_pre_fst control_PID_integral
      checkPlans_plans getDisturbanceValue_CONSTANT rnd_low_def initialRefs_def DT_def)

text \<open>
  Claim C7, as stated, fails: after a PID tick with a plan queued, the reset
  leaves the plan in the queue and the integral accumulator and the last error at
  their values, which are not the initial ones.
\<close>

theorem reset_keeps_plans_and_integral_counterexample:
  "plans (fst (reset pid_state)) \<noteq> plans initialState
   \<and> integralRef (snd (reset pid_state)) \<noteq> integralRef initialRefs
   \<and> lastErrorRef (snd (reset pid_state)) \<noteq> lastErrorRef initialRefs"
  by (simp add: reset_keeps pid_state_values) (simp add: initialState_def initialRefs_def)

text \<open>
  Claim C7, amended. The reset control restores the time, the history, the tank
  level and the transport delay buffer (zeros, of the length it has, which is the
  initial buffer for a buffer of the initial length) to their initial values; it
  leaves the plan queue and the controller state (integral accumulator, last
  error, Smith state, last output) unchanged.
\<close>

theorem reset_restores_level_buffer_time_history:
  "time (fst (reset (st, refs))) = time initialState
   \<and> history (fst (reset (st, refs))) = history initialState
   \<and> tankLevelRef (snd (reset (st, refs))) = tankLevelRef initialRefs
   \<and> pipeBufferRef (snd (reset (st, refs))) = replicate (length (pipeBufferRef refs)) 0
   \<and> (length (pipeBufferRef refs) = BUFFER_SIZE \<longrightarrow>
        pipeBufferRef (snd (reset (st, refs))) = pipeBufferRef initialRefs)
   \<and> plans (fst (reset (st, refs))) = plans st
   \<and> integralRef (snd (reset (st, refs))) = integralRef refs
   \<and> lastErrorRef (snd (reset (st, refs))) = lastErrorRef refs
   \<and> smithStateRef (snd (reset (st, refs))) = smithStateRef refs
   \<and> mpcStateRef (snd (reset (st, refs))) = mpcStateRef refs"
  by (simp add: reset_def initialState_def initialRefs_def map_replicate_const)

section \<open>Transport delay\<close>

lemma js_or_zero: "js_or x 0 = x"
  by (simp add: js_or_def)

lemma runControl_buffer:
  "pipeBufferRef (snd (runControl st ctime rs target level demand refs)) = pipeBufferRef refs"
  by (simp add: runControl_def Let_def control_PID_def control_SMITH_def control_MPC_def
      split: ControlAlgorithm.split)

lemma updatePhysics_buffer:
  "pipeBufferRef (snd (updatePhysics st p d refs)) = tl (pipeBufferRef refs) @ [p]"
  by (simp add: updatePhysics_def Let_def)

lemma updatePhysics_inflow:
  "pipeBufferRef refs \<noteq> [] \<Longrightarrow> fst (updatePhysics st p d refs) = hd (pipeBufferRef refs)"
  by (cases "pipeBufferRef refs") (simp_all add: updatePhysics_def Let_def js_or_zero)

lemma tick_buffer_length:
  "pipeBufferRef (snd sr) \<noteq> [] \<Longrightarrow>
   length (pipeBufferRef (snd (tick ctime rnd sr))) = length (pipeBufferRef (snd sr))"
  by (simp add: tick_snd updatePhysics_buffer runControl_buffer)

lemma physics_run_buffer:
  "pipeBufferRef refs \<noteq> [] \<Longrightarrow>
   pipeBufferRef (physics_run ios refs)
     = drop (length ios) (pipeBufferRef refs @ map (\<lambda>x. fst (snd x)) ios)"
proof (induction ios arbitrary: refs)
  case Nil
  then show ?case by simp
next
  case (Cons io ios)
  obtain st p d where io: "io = (st, p, d)" by (cases io) auto
  let ?r = "snd (updatePhysics st p d refs)"
  have ne: "pipeBufferRef ?r \<noteq> []" by (simp add: updatePhysics_buffer)
  have "pipeBufferRef (physics_run (io # ios) refs)
        = drop (length ios) ((tl (pipeBufferRef refs) @ [p]) @ map (\<lambda>x. fst (snd x)) ios)"
    by (simp add: io Cons.IH[OF ne] updatePhysics_buffer del: drop_append)
  also have "\<dots> = drop (length ios) (tl (pipeBufferRef refs @ p # map (\<lambda>x. fst (snd x)) ios))"
    using Cons.prems by (simp del: drop_append)
  also have "\<dots> = drop (Suc (length ios)) (pipeBufferRef refs @ p # map (\<lambda>x. fst (snd x)) ios)"
    by (simp add: drop_Suc del: drop_append)
  finally show ?case by (simp add: io del: drop_append)
qed

lemma delay_line_pure:
  assumes "length (pipeBufferRef refs) = BUFFER_SIZE"
  shows "fst (updatePhysics st p d
           (physics_run (map (\<lambda>i. (sts i, outs i, dems i)) [0..<n + BUFFER_SIZE]) refs))
         = outs n"
proof -
  let ?ios = "map (\<lambda>i. (sts i, outs i, dems i)) [0..<n + BUFFER_SIZE]"
  let ?all = "pipeBufferRef refs @ map (\<lambda>x. fst (snd x)) ?ios"
  have ne: "pipeBufferRef refs \<noteq> []" using assms by (auto simp add: BUFFER_SIZE_50)
  have b: "pipeBufferRef (physics_run ?ios refs) = drop (n + BUFFER_SIZE) ?all"
    by (simp add: physics_run_buffer[OF ne, of ?ios] del: drop_append)
  have len: "n + BUFFER_SIZE < length ?all" using assms by (simp add: BUFFER_SIZE_50)
  then have ne2: "pipeBufferRef (physics_run ?ios refs) \<noteq> []"
    unfolding b by (simp del: drop_append)
  have "fst (updatePhysics st p d (physics_run ?ios refs)) = hd (drop (n + BUFFER_SIZE) ?all)"
    unfolding updatePhysics_inflow[OF ne2] b ..
  also have "\<dots> = ?all ! (n + BUFFER_SIZE)"
    by (rule hd_drop_conv_nth[OF len])
  also have "\<dots> = ?all ! (length (pipeBufferRef refs) + n)"
    using assms by (simp add: add.commute)
  also have "\<dots> = map (\<lambda>x. fst (snd x)) ?ios ! n"
    by (rule nth_append_length_plus)
  also have "\<dots> = outs n"
    by (simp add: BUFFER_SIZE_50)
  finally show ?thesis .
qed

lemma buffer_topo_snd:
  "length buffer = BUFFER_SIZE_topo \<Longrightarrow> snd (buffer_topo pipe_delay out buffer) = tl (buffer @ [out])"
  by (simp add: buffer_topo_def Let_def)

lemma buffer_run_topo_buffer:
  "length buffer = BUFFER_SIZE_topo \<Longrightarrow>
   buffer_run_topo pipe_delay outs buffer = drop (length outs) (buffer @ outs)"
proof (induction outs arbitrary: buffer)
  case Nil
  then show ?case by simp
next
  case (Cons out outs)
  have ne: "buffer \<noteq> []" using Cons.prems by (auto simp add: BUFFER_SIZE_topo_def)
  have l: "length (tl (buffer @ [out])) = BUFFER_SIZE_topo" using Cons.prems by simp
  have "buffer_run_topo pipe_delay (out # outs) buffer
        = drop (length outs) (tl (buffer @ [out]) @ outs)"
    using Cons.prems by (simp add: Cons.IH[OF l] buffer_topo_snd del: drop_append)
  also have "\<dots> = drop (length outs) (tl (buffer @ out # outs))"
    using ne by (simp del: drop_append)
  also have "\<dots> = drop (Suc (length outs)) (buffer @ out # outs)"
    by (simp add: drop_Suc del: drop_append)
  finally show ?case by (simp del: drop_append)
qed

lemma buffer_topo_delay:
  assumes "length buffer = BUFFER_SIZE_topo"
    and "\<lfloor>pipe_delay / DT\<rfloor> = int idx" and "1 \<le> idx" and "idx \<le> BUFFER_SIZE_topo"
    and "idx \<le> k + 1"
  shows "fst (buffer_topo pipe_delay (outs k)
               (buffer_run_topo pipe_delay (map outs [0..<k]) buffer))
         = Some (outs (k + 1 - idx))"
proof -
  let ?B = "buffer_run_topo pipe_delay (map outs [0..<k]) buffer"
  let ?all = "buffer @ map outs [0..<Suc k]"
  have B: "?B = drop k (buffer @ map outs [0..<k])"
    by (simp add: buffer_run_topo_buffer[OF assms(1), of pipe_delay "map outs [0..<k]"]
        del: drop_append)
  have lB: "length ?B = BUFFER_SIZE_topo" unfolding B using assms(1) by (simp del: drop_append)
  have ne: "buffer \<noteq> []" using assms(1) by (auto simp add: BUFFER_SIZE_topo_def)
  have buf': "tl (?B @ [outs k]) = drop (Suc k) ?all"
  proof -
    have "?B @ [outs k] = drop k ?all" unfolding B using assms(1) by simp
    then show ?thesis by (simp add: drop_Suc tl_drop del: drop_append upt_Suc)
  qed
  have l': "length (tl (?B @ [outs k])) = BUFFER_SIZE_topo" using lB by simp
  have "fst (buffer_topo pipe_delay (outs k) ?B)
        = Some (tl (?B @ [outs k]) ! (BUFFER_SIZE_topo - idx))"
    using lB l' assms(2,3,4) by (simp add: buffer_topo_def Let_def nat_diff_distrib')
  also have "tl (?B @ [outs k]) ! (BUFFER_SIZE_topo - idx) = ?all ! (Suc k + (BUFFER_SIZE_topo - idx))"
    using assms(1,3,4) unfolding buf' by (subst nth_drop) simp_all
  also have "\<dots> = ?all ! (length buffer + (Suc k - idx))"
  proof -
    have "Suc k + (BUFFER_SIZE_topo - idx) = length buffer + (Suc k - idx)"
      using assms(1,4,5) by arith
    then show ?thesis by (rule arg_cong)
  qed
  also have "\<dots> = map outs [0..<Suc k] ! (Suc k - idx)"
    by (rule nth_append_length_plus)
  also have "\<dots> = outs (k + 1 - idx)"
    using assms(3) by (subst nth_map) (simp_all del: upt_Suc)
  finally show ?thesis .
qed

lemma pid_state_buffer_length: "length (pipeBufferRef (snd pid_state)) = BUFFER_SIZE"
  by (simp add: pid_state_eq tick_buffer_length initialRefs_def BUFFER_SIZE_50)

theorem reset_restores_level_buffer_time_history_witness:
  "length (pipeBufferRef (snd pid_state)) = BUFFER_SIZE
   \<and> pipeBufferRef (snd (reset pid_state)) = pipeBufferRef initialRefs
   \<and> tankLevelRef (snd (reset pid_state)) = 295
   \<and> time (fst (reset pid_state)) = 0"
  using pid_state_buffer_length
    reset_restores_level_buffer_time_history [of "fst pid_state" "snd pid_state"]
  by (simp add: initialState_def initialRefs_def)

lemma floor_delay_5: "\<lfloor>5 / DT\<rfloor> = 50"
  by (simp add: DT_def)

text \<open>
  Claim C3 on the topology-editor variant. With the default pipe delay of 5 s the
  lookup offset is \<open>\<lfloor>5 / DT\<rfloor> = round (5 / DT) = 50\<close>, and from the initial buffer the
  inflow read in tick 49 is already the output pushed in tick 0, while the inflow
  read in tick 50 is the output pushed in tick 1: the delay is 49 ticks, not 50.
\<close>

theorem delay_buffer_topo_off_by_one:
  "\<lfloor>5 / DT\<rfloor> = 50 \<and> round (5 / DT) = 50
   \<and> fst (buffer_topo 5 (impulse 49)
          (buffer_run_topo 5 (map impulse [0..<49]) (pipeBufferRef initialRefs_topo)))
       = Some (impulse 0)
   \<and> fst (buffer_topo 5 (impulse 50)
          (buffer_run_topo 5 (map impulse [0..<50]) (pipeBufferRef initialRefs_topo)))
       = Some (impulse 1)
   \<and> impulse 1 \<noteq> impulse 0"
proof -
  have l: "length (pipeBufferRef initialRefs_topo) = BUFFER_SIZE_topo"
    by (simp add: initialRefs_topo_def)
  have a: "fst (buffer_topo 5 (impulse 49)
          (buffer_run_topo 5 (map impulse [0..<49]) (pipeBufferRef initialRefs_topo)))
       = Some (impulse (49 + 1 - 50))"
    by (rule buffer_topo_delay[OF l]) (simp_all add: floor_delay_5 BUFFER_SIZE_topo_def)
  have b: "fst (buffer_topo 5 (impulse 50)
          (buffer_run_topo 5 (map impulse [0..<50]) (pipeBufferRef initialRefs_topo)))
       = Some (impulse (50 + 1 - 50))"
    by (rule buffer_topo_delay[OF l]) (simp_all add: floor_delay_5 BUFFER_SIZE_topo_def)
  have r: "round (5 / DT) = 50" by (simp add: DT_def round_def)
  show ?thesis using a b r by (simp add: floor_delay_5 impulse_def)
qed

section \<open>The integral accumulator in every reachable state\<close>

text \<open>
  The bound that the anti-windup result starts from holds after any sequence of
  ticks and configuration changes from the initial state.
\<close>

lemma control_PID_integral_bounded: "\<bar>integralRef (snd (control_PID st e refs))\<bar> \<le> 500"
  by (simp add: control_PID_integral sgn_if)

lemma runControl_integral_bounded:
  "\<bar>integralRef refs\<bar> \<le> 500 \<Longrightarrow>
   \<bar>integralRef (snd (runControl st ctime rs target level demand refs))\<bar> \<le> 500"
  using control_PID_integral_bounded[of st "target - level" refs]
  by (cases "algorithm (deployedParadigm st)")
     (simp_all add: runControl_def Let_def control_SMITH_def control_MPC_def)

lemma apply_event_integral_bounded:
  "\<bar>integralRef (snd sr)\<bar> \<le> 500 \<Longrightarrow> \<bar>integralRef (snd (apply_event e sr))\<bar> \<le> 500"
  by (cases e)
     (simp_all add: tick_snd updatePhysics_keeps_controller runControl_integral_bounded
        deployParadigm_def reset_keeps)

lemma simulate_integral_bounded:
  "\<bar>integralRef (snd (simulate evs (initialState, initialRefs)))\<bar> \<le> 500"
proof -
  have "\<bar>integralRef (snd sr)\<bar> \<le> 500 \<Longrightarrow> \<bar>integralRef (snd (simulate evs sr))\<bar> \<le> 500" for sr
    unfolding simulate_def
    by (induction evs arbitrary: sr) (simp_all add: apply_event_integral_bounded)
  then show ?thesis by (simp add: initialRefs_def)
qed

section \<open>The Smith law in double arithmetic\<close>

lemma double_quantum_zero: "double_quantum 0 = 2 powr (- 1074)"
  by (simp add: double_quantum_def)

lemma to_double_zero: "to_double 0 = 0"
  by (simp add: to_double_def round_half_even_def)

lemma double_quantum_eval:
  assumes "2 ^ n \<le> \<bar>x\<bar>" and "\<bar>x\<bar> < 2 * 2 ^ n"
  shows "double_quantum x = 2 ^ n / 2 ^ 52"
proof -
  have pos: "0 < \<bar>x\<bar>" using assms(1) by (smt (verit) zero_less_power)
  have "(2::real) powr (- 1022) \<le> 1" by (simp add: powr_minus_divide)
  also have "(1::real) \<le> 2 ^ n" by simp
  finally have big: "\<not> \<bar>x\<bar> < 2 powr (- 1022)" using assms(1) by linarith
  have "\<lfloor>log 2 \<bar>x\<bar>\<rfloor> = int n"
    using assms by (subst floor_log_eq_powr_iff[OF pos]) (simp_all add: powr_realpow powr_add)
  then show ?thesis
    using big by (simp add: double_quantum_def powr_diff powr_realpow)
qed

lemma to_double_eval:
  assumes "2 ^ n \<le> \<bar>x\<bar>" and "\<bar>x\<bar> < 2 * 2 ^ n"
  shows "to_double x = of_int (round_half_even (x * 2 ^ 52 / 2 ^ n)) * (2 ^ n / 2 ^ 52)"
  by (simp add: to_double_def double_quantum_eval[OF assms])

lemma level_double: "to_double (2191 / 10) = 7708895924663091 / 2 ^ 45"
  by (subst to_double_eval[of 7]) (simp_all add: round_half_even_def)

lemma model_double: "to_double (2992 / 100) = 2105432825795707 / 2 ^ 46"
  by (subst to_double_eval[of 4]) (simp_all add: round_half_even_def)

lemma round_half_even_error: "\<bar>of_int (round_half_even r) - r\<bar> \<le> 1 / 2"
proof -
  have "of_int \<lfloor>r\<rfloor> \<le> r" "r < of_int \<lfloor>r\<rfloor> + 1" by linarith+
  then show ?thesis
    by (auto simp add: round_half_even_def Let_def)
qed

lemma double_quantum_pos: "0 < double_quantum x"
  by (simp add: double_quantum_def)

lemma double_quantum_le: "double_quantum x \<le> \<bar>x\<bar> / 2 ^ 52 + 2 powr (- 1074)"
proof (cases "\<bar>x\<bar> < 2 powr (- 1022)")
  case True
  then show ?thesis by (simp add: double_quantum_def)
next
  case False
  have "(0::real) < 2 powr (- 1022)" by simp
  then have pos: "0 < \<bar>x\<bar>" using False by linarith
  have "2 powr (of_int \<lfloor>log 2 \<bar>x\<bar>\<rfloor>) \<le> 2 powr (log 2 \<bar>x\<bar>)"
    by (rule powr_mono) simp_all
  also have "\<dots> = \<bar>x\<bar>" using pos by simp
  finally have le: "2 powr (of_int \<lfloor>log 2 \<bar>x\<bar>\<rfloor>) \<le> \<bar>x\<bar>" .
  have "double_quantum x = 2 powr (of_int \<lfloor>log 2 \<bar>x\<bar>\<rfloor>) / 2 ^ 52"
    using False by (simp add: double_quantum_def powr_diff)
  also have "\<dots> \<le> \<bar>x\<bar> / 2 ^ 52" using le by (simp add: divide_right_mono)
  also have "\<dots> \<le> \<bar>x\<bar> / 2 ^ 52 + 2 powr (- 1074)" by simp
  finally show ?thesis .
qed

lemma to_double_error_quantum: "\<bar>to_double x - x\<bar> \<le> double_quantum x / 2"
proof -
  let ?q = "double_quantum x"
  let ?k = "of_int (round_half_even (x / ?q)) :: real"
  have q: "0 < ?q" by (rule double_quantum_pos)
  have "to_double x - x = (?k - x / ?q) * ?q"
    using q by (simp add: to_double_def algebra_simps)
  then have "\<bar>to_double x - x\<bar> = \<bar>?k - x / ?q\<bar> * ?q"
    using q by (simp add: abs_mult)
  also have "\<dots> \<le> (1 / 2) * ?q"
    using round_half_even_error[of "x / ?q"] q by (intro mult_right_mono) simp_all
  finally show ?thesis by simp
qed

lemma to_double_error: "\<bar>to_double x - x\<bar> \<le> \<bar>x\<bar> / 2 ^ 53 + 2 powr (- 1075)"
proof -
  have "(2::real) powr (- 1074) / 2 = 2 powr (- 1075)"
    by (simp add: powr_minus_divide)
  then show ?thesis
    using to_double_error_quantum[of x] double_quantum_le[of x] by (simp add: field_simps)
qed

lemma rounding_chain_smith:
  fixes R :: "real \<Rightarrow> real" and a b e :: real
  assumes e: "0 \<le> e"
    and E: "\<And>x. \<bar>R x - x\<bar> \<le> \<bar>x\<bar> / 2 ^ 53 + e"
  shows "\<bar>R (R (4 * R (R a - R b)) + 50) - (4 * (a - b) + 50)\<bar>
         \<le> 52 * (\<bar>a\<bar> + \<bar>b\<bar>) / 2 ^ 53 + 50 / 2 ^ 53 + 20 * e"
proof -
  have E': "\<And>x. \<bar>R x - x\<bar> \<le> \<bar>x\<bar> / 9007199254740992 + e"
    using E by simp
  define pe where "pe = R a"
  define mm where "mm = R b"
  define ds where "ds = R (pe - mm)"
  define m4 where "m4 = R (4 * ds)"
  define S where "S = R (m4 + 50)"
  have 1: "\<bar>pe - a\<bar> \<le> \<bar>a\<bar> / 9007199254740992 + e"
    unfolding pe_def by (rule E')
  have 2: "\<bar>mm - b\<bar> \<le> \<bar>b\<bar> / 9007199254740992 + e"
    unfolding mm_def by (rule E')
  have 3: "\<bar>(pe - mm) - (a - b)\<bar> \<le> (\<bar>a\<bar> + \<bar>b\<bar>) / 9007199254740992 + 2 * e"
    using 1 2 by argo
  have 4: "\<bar>pe - mm\<bar> \<le> 2 * (\<bar>a\<bar> + \<bar>b\<bar>) + 2 * e"
    using 3 by argo
  have "\<bar>ds - (pe - mm)\<bar> \<le> \<bar>pe - mm\<bar> / 9007199254740992 + e"
    unfolding ds_def by (rule E')
  then have 5: "\<bar>ds - (pe - mm)\<bar> \<le> 2 * (\<bar>a\<bar> + \<bar>b\<bar>) / 9007199254740992 + 2 * e"
    using 4 e by argo
  have 6: "\<bar>ds - (a - b)\<bar> \<le> 3 * (\<bar>a\<bar> + \<bar>b\<bar>) / 9007199254740992 + 4 * e"
    using 3 5 by argo
  have 7: "\<bar>ds\<bar> \<le> 3 * (\<bar>a\<bar> + \<bar>b\<bar>) + 4 * e"
    using 6 e by argo
  have "\<bar>m4 - 4 * ds\<bar> \<le> \<bar>4 * ds\<bar> / 9007199254740992 + e"
    unfolding m4_def by (rule E')
  then have 8: "\<bar>m4 - 4 * ds\<bar> \<le> 12 * (\<bar>a\<bar> + \<bar>b\<bar>) / 9007199254740992 + 2 * e"
    using 7 e by argo
  have 9: "\<bar>m4 - 4 * (a - b)\<bar> \<le> 24 * (\<bar>a\<bar> + \<bar>b\<bar>) / 9007199254740992 + 18 * e"
    using 6 8 by argo
  have 10: "\<bar>m4 + 50\<bar> \<le> 28 * (\<bar>a\<bar> + \<bar>b\<bar>) + 50 + 18 * e"
    using 9 e by argo
  have "\<bar>S - (m4 + 50)\<bar> \<le> \<bar>m4 + 50\<bar> / 9007199254740992 + e"
    unfolding S_def by (rule E')
  then have 11: "\<bar>S - (m4 + 50)\<bar> \<le> 28 * (\<bar>a\<bar> + \<bar>b\<bar>) / 9007199254740992 + 50 / 9007199254740992 + 2 * e"
    using 10 e by argo
  have "\<bar>S - (4 * (a - b) + 50)\<bar> \<le> 52 * (\<bar>a\<bar> + \<bar>b\<bar>) / 9007199254740992 + 50 / 9007199254740992 + 20 * e"
    using 9 11 by argo
  then show ?thesis
    by (simp add: S_def m4_def ds_def pe_def mm_def)
qed

lemma rounding_chain_plain:
  fixes R :: "real \<Rightarrow> real" and p e :: real
  assumes e: "0 \<le> e"
    and E: "\<And>x. \<bar>R x - x\<bar> \<le> \<bar>x\<bar> / 2 ^ 53 + e"
  shows "\<bar>R (R (4 * R p) + 50) - (4 * p + 50)\<bar>
         \<le> 28 * \<bar>p\<bar> / 2 ^ 53 + 50 / 2 ^ 53 + 8 * e"
proof -
  have E': "\<And>x. \<bar>R x - x\<bar> \<le> \<bar>x\<bar> / 9007199254740992 + e"
    using E by simp
  define dp where "dp = R p"
  define n4 where "n4 = R (4 * dp)"
  define P where "P = R (n4 + 50)"
  have 1: "\<bar>dp - p\<bar> \<le> \<bar>p\<bar> / 9007199254740992 + e"
    unfolding dp_def by (rule E')
  have 2: "\<bar>dp\<bar> \<le> 2 * \<bar>p\<bar> + e"
    using 1 by argo
  have "\<bar>n4 - 4 * dp\<bar> \<le> \<bar>4 * dp\<bar> / 9007199254740992 + e"
    unfolding n4_def by (rule E')
  then have 3: "\<bar>n4 - 4 * dp\<bar> \<le> 8 * \<bar>p\<bar> / 9007199254740992 + 2 * e"
    using 2 e by argo
  have 4: "\<bar>n4 - 4 * p\<bar> \<le> 12 * \<bar>p\<bar> / 9007199254740992 + 6 * e"
    using 1 3 by argo
  have 5: "\<bar>n4 + 50\<bar> \<le> 16 * \<bar>p\<bar> + 50 + 6 * e"
    using 4 e by argo
  have "\<bar>P - (n4 + 50)\<bar> \<le> \<bar>n4 + 50\<bar> / 9007199254740992 + e"
    unfolding P_def by (rule E')
  then have 6: "\<bar>P - (n4 + 50)\<bar> \<le> 16 * \<bar>p\<bar> / 9007199254740992 + 50 / 9007199254740992 + 2 * e"
    using 5 e by argo
  have "\<bar>P - (4 * p + 50)\<bar> \<le> 28 * \<bar>p\<bar> / 9007199254740992 + 50 / 9007199254740992 + 8 * e"
    using 4 6 by argo
  then show ?thesis
    by (simp add: P_def n4_def dp_def)
qed

lemma rounding_chain_both:
  fixes R :: "real \<Rightarrow> real" and a b e :: real
  assumes e: "0 \<le> e"
    and E: "\<And>x. \<bar>R x - x\<bar> \<le> \<bar>x\<bar> / 2 ^ 53 + e"
  shows "\<bar>R (R (4 * R (R a - R b)) + 50) - R (R (4 * R (a - b)) + 50)\<bar>
         \<le> (\<bar>a\<bar> + \<bar>b\<bar> + 2) / 2 ^ 46 + 32 * e"
proof -
  have "\<bar>R (R (4 * R (R a - R b)) + 50) - R (R (4 * R (a - b)) + 50)\<bar>
         \<le> (\<bar>a\<bar> + \<bar>b\<bar> + 2) / 70368744177664 + 32 * e"
    using rounding_chain_smith[OF e E, of a b] rounding_chain_plain[OF e E, of "a - b"] e
    by simp argo
  then show ?thesis by simp
qed


lemma control_SMITH_double_fst:
  "fst (control_SMITH_double st target level demand refs) =
    to_double (to_double (4 * to_double
      (to_double (target - modelLevel (smithStateRef
          (snd (control_SMITH_double st target level demand refs))))
       - to_double (level - modelLevel (smithStateRef
          (snd (control_SMITH_double st target level demand refs)))))) + 50)"
  by (simp add: control_SMITH_double_def Let_def dadd_def dsub_def dmul_def)

lemma control_topo_SMITH_double_eq:
  "control_topo_SMITH_double target level
     = to_double (to_double (4 * to_double (target - level)) + 50)"
  by (simp add: control_topo_SMITH_double_def dadd_def dsub_def dmul_def)

lemma smith_refs_model:
  "modelLevel (smithStateRef (snd (control_SMITH_double initialState target level 50 (smith_refs m))))
     = to_double m"
  by (simp add: control_SMITH_double_def Let_def smith_refs_def dadd_def dsub_def dmul_def
      ddiv_def to_double_zero)

lemma to_double_50: "to_double 50 = 50"
  by (subst to_double_eval[of 5]) (simp_all add: round_half_even_def)

text \<open>
  Claim C10, amended. In the double arithmetic of the program the SMITH output
  before the pump limit equals the plain law \<open>4 \<cdot> (target - level) + 50\<close> of the
  variant whenever the two subtractions of the model level are exact, and always
  at zero error, where both are 50; for every input the two differ by at most
  \<open>(\<bar>target - m\<bar> + \<bar>level - m\<bar> + 2) / 2 ^ 46 + 2 ^ (- 1070)\<close>, with \<open>m\<close> the updated model
  level: a rounding residue, through which the output depends on the model level.
\<close>

theorem smith_output_proportional_up_to_rounding:
  "(to_double (target - modelLevel (smithStateRef
        (snd (control_SMITH_double st target level demand refs))))
      = target - modelLevel (smithStateRef
        (snd (control_SMITH_double st target level demand refs)))
    \<and> to_double (level - modelLevel (smithStateRef
        (snd (control_SMITH_double st target level demand refs))))
      = level - modelLevel (smithStateRef
        (snd (control_SMITH_double st target level demand refs)))
    \<longrightarrow> fst (control_SMITH_double st target level demand refs)
          = control_topo_SMITH_double target level)
   \<and> fst (control_SMITH_double st target target demand refs)
       = control_topo_SMITH_double target target
   \<and> control_topo_SMITH_double target target = 50
   \<and> \<bar>fst (control_SMITH_double st target level demand refs)
        - control_topo_SMITH_double target level\<bar>
       \<le> (\<bar>target - modelLevel (smithStateRef
               (snd (control_SMITH_double st target level demand refs)))\<bar>
           + \<bar>level - modelLevel (smithStateRef
               (snd (control_SMITH_double st target level demand refs)))\<bar> + 2) / 2 ^ 46
          + 2 powr (- 1070)"
proof -
  let ?m = "modelLevel (smithStateRef (snd (control_SMITH_double st target level demand refs)))"
  let ?m' = "modelLevel (smithStateRef (snd (control_SMITH_double st target target demand refs)))"
  have exact: "to_double (target - ?m) = target - ?m \<and> to_double (level - ?m) = level - ?m
      \<longrightarrow> fst (control_SMITH_double st target level demand refs)
            = control_topo_SMITH_double target level"
  proof
    assume h: "to_double (target - ?m) = target - ?m \<and> to_double (level - ?m) = level - ?m"
    have "fst (control_SMITH_double st target level demand refs)
          = to_double (to_double (4 * to_double ((target - ?m) - (level - ?m))) + 50)"
      by (subst control_SMITH_double_fst) (simp only: h)
    then show "fst (control_SMITH_double st target level demand refs)
            = control_topo_SMITH_double target level"
      by (simp add: control_topo_SMITH_double_eq)
  qed
  have zero: "fst (control_SMITH_double st target target demand refs)
       = control_topo_SMITH_double target target"
    by (subst control_SMITH_double_fst) (simp add: control_topo_SMITH_double_eq to_double_zero)
  have fifty: "control_topo_SMITH_double target target = 50"
    by (simp add: control_topo_SMITH_double_eq to_double_zero to_double_50)
  have e: "(0::real) \<le> 2 powr (- 1075)" by simp
  have "(2::real) powr (- 1070) = 2 powr 5 * 2 powr (- 1075)"
    by (simp only: powr_add[symmetric]) simp
  then have p: "32 * 2 powr (- 1075) = (2::real) powr (- 1070)" by simp
  have "\<bar>fst (control_SMITH_double st target level demand refs)
        - control_topo_SMITH_double target level\<bar>
       \<le> (\<bar>target - ?m\<bar> + \<bar>level - ?m\<bar> + 2) / 2 ^ 46 + 32 * 2 powr (- 1075)"
    using rounding_chain_both[of "2 powr (- 1075)" to_double "target - ?m" "level - ?m",
        OF e to_double_error]
    by (subst control_SMITH_double_fst) (simp add: control_topo_SMITH_double_eq)
  then have bound: "\<bar>fst (control_SMITH_double st target level demand refs)
        - control_topo_SMITH_double target level\<bar>
       \<le> (\<bar>target - ?m\<bar> + \<bar>level - ?m\<bar> + 2) / 2 ^ 46 + 2 powr (- 1070)"
    by (simp only: p)
  show ?thesis using exact zero fifty bound by blast
qed

lemma smith_double_at_model_level:
  "fst (control_SMITH_double initialState 209 (7708895924663091 / 2 ^ 45) 50
          (smith_refs (2105432825795707 / 2 ^ 46)))
     = 21110623253299 / 2 ^ 41"
proof -
  let ?L = "7708895924663091 / 2 ^ 45 :: real"
  let ?M = "2105432825795707 / 2 ^ 46 :: real"
  let ?PE = "3150408676834017 / 2 ^ 44 :: real"
  let ?MM = "3328089755882619 / 2 ^ 44 :: real"
  let ?D = "- 88840539524301 / 2 ^ 43 :: real"
  let ?M4 = "- 88840539524301 / 2 ^ 41 :: real"
  have 0: "to_double ?M = ?M"
    by (subst to_double_eval[of 4]) (simp_all add: round_half_even_def)
  have 1: "to_double (209 - ?M) = ?PE"
    by (subst to_double_eval[of 7]) (simp_all add: round_half_even_def)
  have 2: "to_double (?L - ?M) = ?MM"
    by (subst to_double_eval[of 7]) (simp_all add: round_half_even_def)
  have 3: "to_double (?PE - ?MM) = ?D"
    by (subst to_double_eval[of 3]) (simp_all add: round_half_even_def)
  have 4: "to_double (4 * ?D) = ?M4"
    by (subst to_double_eval[of 5]) (simp_all add: round_half_even_def)
  have 5: "to_double (?M4 + 50) = 21110623253299 / 2 ^ 41"
    by (subst to_double_eval[of 3]) (simp_all add: round_half_even_def)
  show ?thesis
    by (subst control_SMITH_double_fst) (simp only: smith_refs_model 0 1 2 3 4 5)
qed

lemma plain_double_at_level:
  "control_topo_SMITH_double 209 (7708895924663091 / 2 ^ 45) = 84442493013197 / 2 ^ 43"
proof -
  let ?L = "7708895924663091 / 2 ^ 45 :: real"
  let ?E = "- 355362158097203 / 2 ^ 45 :: real"
  let ?E4 = "- 355362158097203 / 2 ^ 43 :: real"
  have 1: "to_double (209 - ?L) = ?E"
    by (subst to_double_eval[of 3]) (simp_all add: round_half_even_def)
  have 2: "to_double (4 * ?E) = ?E4"
    by (subst to_double_eval[of 5]) (simp_all add: round_half_even_def)
  have 3: "to_double (?E4 + 50) = 84442493013197 / 2 ^ 43"
    by (subst to_double_eval[of 3]) (simp_all add: round_half_even_def)
  show ?thesis
    by (simp only: control_topo_SMITH_double_eq 1 2 3)
qed


lemma smith_double_at_zero_model:
  "fst (control_SMITH_double initialState 209 (7708895924663091 / 2 ^ 45) 50 (smith_refs 0))
     = 84442493013197 / 2 ^ 43"
proof -
  let ?L = "7708895924663091 / 2 ^ 45 :: real"
  let ?E = "- 355362158097203 / 2 ^ 45 :: real"
  let ?E4 = "- 355362158097203 / 2 ^ 43 :: real"
  have 1: "to_double (209 - 0) = 209"
    by (subst to_double_eval[of 7]) (simp_all add: round_half_even_def)
  have 2: "to_double (?L - 0) = ?L"
    by (subst to_double_eval[of 7]) (simp_all add: round_half_even_def)
  have 3: "to_double (209 - ?L) = ?E"
    by (subst to_double_eval[of 3]) (simp_all add: round_half_even_def)
  have 4: "to_double (4 * ?E) = ?E4"
    by (subst to_double_eval[of 5]) (simp_all add: round_half_even_def)
  have 5: "to_double (?E4 + 50) = 84442493013197 / 2 ^ 43"
    by (subst to_double_eval[of 3]) (simp_all add: round_half_even_def)
  show ?thesis
    by (subst control_SMITH_double_fst)
       (simp only: smith_refs_model to_double_zero 1 2 3 4 5)
qed

text \<open>
  Claim C10, as stated, fails. With target 209, sensed level 219.1 and model
  level 29.92 (as doubles), a last output and a demand of 50, the SMITH output
  before the pump limit is 9.599999999999909..., while the plain law gives
  9.600000000000022..., in double and in exact arithmetic; and with the model
  level 0 instead, the same target and level give the value of the plain law.
\<close>

theorem smith_output_depends_on_model_level_counterexample:
  "to_double (2191 / 10) = 7708895924663091 / 2 ^ 45
   \<and> to_double (2992 / 100) = 2105432825795707 / 2 ^ 46
   \<and> fst (control_SMITH_double initialState 209 (7708895924663091 / 2 ^ 45) 50
            (smith_refs (2105432825795707 / 2 ^ 46)))
       = 21110623253299 / 2 ^ 41
   \<and> control_topo_SMITH_double 209 (7708895924663091 / 2 ^ 45) = 84442493013197 / 2 ^ 43
   \<and> 4 * (209 - 7708895924663091 / 2 ^ 45) + 50 = (84442493013197 / 2 ^ 43 :: real)
   \<and> fst (control_SMITH_double initialState 209 (7708895924663091 / 2 ^ 45) 50
            (smith_refs (2105432825795707 / 2 ^ 46)))
       \<noteq> control_topo_SMITH_double 209 (7708895924663091 / 2 ^ 45)
   \<and> fst (control_SMITH_double initialState 209 (7708895924663091 / 2 ^ 45) 50
            (smith_refs (2105432825795707 / 2 ^ 46)))
       \<noteq> fst (control_SMITH_double initialState 209 (7708895924663091 / 2 ^ 45) 50
              (smith_refs 0))"
proof -
  have e: "4 * (209 - 7708895924663091 / 2 ^ 45) + 50 = (84442493013197 / 2 ^ 43 :: real)"
    by simp
  have f: "fst (control_SMITH_double initialState 209 (7708895924663091 / 2 ^ 45) 50
            (smith_refs (2105432825795707 / 2 ^ 46)))
       \<noteq> control_topo_SMITH_double 209 (7708895924663091 / 2 ^ 45)"
    unfolding smith_double_at_model_level plain_double_at_level by simp
  have g: "fst (control_SMITH_double initialState 209 (7708895924663091 / 2 ^ 45) 50
            (smith_refs (2105432825795707 / 2 ^ 46)))
       \<noteq> fst (control_SMITH_double initialState 209 (7708895924663091 / 2 ^ 45) 50
              (smith_refs 0))"
    unfolding smith_double_at_model_level smith_double_at_zero_model by simp
  show ?thesis
    using level_double model_double smith_double_at_model_level plain_double_at_level e f g
    by blast
qed

theorem smith_output_proportional_up_to_rounding_witness:
  "modelLevel (smithStateRef (snd (control_SMITH_double initialState 209
       (7708895924663091 / 2 ^ 45) 50 (smith_refs 0)))) = 0
   \<and> to_double (209 - 0) = 209 - 0
   \<and> to_double (7708895924663091 / 2 ^ 45 - 0) = 7708895924663091 / 2 ^ 45 - 0
   \<and> fst (control_SMITH_double initialState 209 (7708895924663091 / 2 ^ 45) 50 (smith_refs 0))
       = control_topo_SMITH_double 209 (7708895924663091 / 2 ^ 45)"
proof -
  let ?L = "7708895924663091 / 2 ^ 45 :: real"
  have m: "modelLevel (smithStateRef (snd (control_SMITH_double initialState 209 ?L 50
             (smith_refs 0)))) = 0"
    by (simp only: smith_refs_model to_double_zero)
  have 1: "to_double (209 - 0) = 209 - 0"
    by (subst to_double_eval[of 7]) (simp_all add: round_half_even_def)
  have 2: "to_double (?L - 0) = ?L - 0"
    by (subst to_double_eval[of 7]) (simp_all add: round_half_even_def)
  have "fst (control_SMITH_double initialState 209 ?L 50 (smith_refs 0))
        = control_topo_SMITH_double 209 ?L"
    using smith_output_proportional_up_to_rounding[of 209 initialState ?L 50 "smith_refs 0"]
    by (simp only: m 1 2)
  then show ?thesis using m 1 2 by blast
qed

end
